theory Spec2Isabelle
  imports Main "HOL-Library.Word"
begin

section \<open>Droidboot: the fastboot command handlers and the boot orchestration\<close>

text \<open>
  A shallow embedding of \<^verbatim>\<open>aboot.c\<close> (the fastboot command handlers) and of the
  countdown and update-check logic of \<^verbatim>\<open>droidboot.c\<close>.

  Every call that leaves the two files (libdiskconfig, libc, the fastboot transport, the
  UI library, the kernel) is a field of the record \<open>sys\<close>: the answer the callee gives for
  the arguments it is called with. A handler is a function from \<open>sys\<close> and its C arguments
  to the list of calls it made, in program order, and the way it ended. Logging
  (\<^verbatim>\<open>LOGI\<close>, \<^verbatim>\<open>pr_info\<close>, ...) and \<^verbatim>\<open>free\<close> are left out. An answer depends on the
  arguments of the call only: where one run makes the same call twice (the flash handler
  can open the same node twice), both calls get the same answer.
\<close>

subsection \<open>Data\<close>

type_synonym byte = "8 word"

text \<open>
  Modelled from the spec: \<^verbatim>\<open>struct part_info\<close> and the partition type codes are declared
  in \<^verbatim>\<open>diskconfig/diskconfig.h\<close>, which is not part of the sources. The spec's data model
  gives a partition record a name and a type drawn from an enumeration with one supported
  member (Linux) and others; the handlers only ever compare the type with
  \<^verbatim>\<open>PC_PART_TYPE_LINUX\<close>.
\<close>

datatype part_type = PC_PART_TYPE_LINUX | PC_PART_TYPE_OTHER nat

record part_info =
  name :: string
  type :: part_type

text \<open>
  Of \<^verbatim>\<open>struct ext3_super_block\<close> (\<^verbatim>\<open>linux/ext3_fs.h\<close>) the code reads the 16-bit field
  \<^verbatim>\<open>s_magic\<close> only; \<^verbatim>\<open>EXT3_SUPER_MAGIC\<close> is the constant of that header.
\<close>

record ext3_super_block =
  s_magic :: "16 word"

definition EXT3_SUPER_MAGIC :: "16 word" where
  "EXT3_SUPER_MAGIC = 0xEF53"

definition EXT_SUPERBLOCK_OFFSET :: int where
  "EXT_SUPERBLOCK_OFFSET = 1024"

definition INT_MIN :: int where
  "INT_MIN = - (2 ^ 31)"


text \<open>The result of \<^verbatim>\<open>stat(2)\<close> as \<^verbatim>\<open>detect_sw_update\<close> reads it.\<close>

datatype stat_result = Stat_Ok | Stat_ENOENT | Stat_Error

text \<open>
  \<^verbatim>\<open>Volume\<close> of \<^verbatim>\<open>droidboot_fstab.h\<close>: the fields the code reads (prefixed, as \<open>device\<close>
  is also a local variable of the handlers).
\<close>

record Volume =
  vol_mount_point :: string
  vol_fs_type :: string
  vol_device :: string
  vol_device2 :: "string option"

subsection \<open>The world outside the two files\<close>

record sys =
  disk_device :: string
    \<comment> \<open>\<^verbatim>\<open>disk_info->device\<close>\<close>
  find_part :: "string \<Rightarrow> part_info option"
    \<comment> \<open>\<^verbatim>\<open>find_part(disk_info, name)\<close>; \<open>None\<close> is \<^verbatim>\<open>NULL\<close>\<close>
  find_part_device :: "string \<Rightarrow> string option"
    \<comment> \<open>\<^verbatim>\<open>find_part_device(disk_info, name)\<close>; \<open>None\<close> is \<^verbatim>\<open>NULL\<close>\<close>
  is_valid_blkdev :: "string \<Rightarrow> bool"
  asprintf_ok :: "string \<Rightarrow> bool"
    \<comment> \<open>whether \<^verbatim>\<open>asprintf\<close> can allocate the formatted string (its result is not negative)\<close>
  execute_command :: "string \<Rightarrow> int"
  popen_ok :: "string \<Rightarrow> bool"
    \<comment> \<open>whether \<^verbatim>\<open>popen(cmd, "w")\<close> returns a stream\<close>
  fwrite :: "string \<Rightarrow> byte list \<Rightarrow> nat"
    \<comment> \<open>the number of bytes the pipeline opened with the command accepts\<close>
  open_ok :: "string \<Rightarrow> bool"
    \<comment> \<open>whether \<^verbatim>\<open>open(device, O_RDWR)\<close> returns a descriptor\<close>
  lseek :: "string \<Rightarrow> int \<Rightarrow> int"
  read_superblock :: "string \<Rightarrow> ext3_super_block option"
    \<comment> \<open>\<open>None\<close>: \<^verbatim>\<open>read\<close> did not return \<^verbatim>\<open>sizeof(superblock)\<close>\<close>
  write_stitch_image :: "byte list \<Rightarrow> int \<Rightarrow> int"
  atoi :: "string \<Rightarrow> int"
  apply_disk_config :: int
    \<comment> \<open>the status of \<^verbatim>\<open>apply_disk_config(disk_info, 0)\<close>\<close>
  reboot_ok :: bool
    \<comment> \<open>whether \<^verbatim>\<open>__reboot\<close> restarts the machine (it returns only when it fails)\<close>
  mount_partition :: "part_info option \<Rightarrow> int"
  kexec_linux :: "string \<Rightarrow> bool"
    \<comment> \<open>whether control passes to the new kernel (the call returns only when it fails)\<close>
  mount_partition_device :: "string \<Rightarrow> string \<Rightarrow> string \<Rightarrow> int"
  stat :: "string \<Rightarrow> stat_result"
  strdup_ok :: "string \<Rightarrow> bool"
  platform_provision_function :: "int option"
    \<comment> \<open>\<open>None\<close>: the function pointer is \<^verbatim>\<open>NULL\<close>; otherwise what the hook returns\<close>
  ext4_filesystem_checks :: "string \<Rightarrow> part_info \<Rightarrow> int"
  erase_partition :: "part_info \<Rightarrow> int"
  apply_sw_update_returns :: "string \<Rightarrow> bool"
    \<comment> \<open>whether \<^verbatim>\<open>apply_sw_update(location, 0)\<close> comes back to its caller\<close>
  DEVICE_NAME :: string
  CACHE_PTN :: string
  DATA_PTN :: string
    \<comment> \<open>the three build-time macros\<close>

datatype reply = OKAY string | FAIL string

datatype event =
    Reply reply
  | Blkdev_Check string
  | Popen string
  | Fwrite "byte list" nat
  | Pclose
  | Sync
  | Open_Dev string
  | Seek int
  | Read_Superblock "ext3_super_block option"
  | Reread_Partition_Table
  | Close_Dev
  | Execute string int
  | Write_Stitch_Image "byte list" int
  | Apply_Disk_Config
  | Reboot
  | Mount_Partition
  | Kexec string
  | Mount_Device string string
  | Stat string
  | Umount string
  | Ui_Show_Text int
  | Ui_Show_Progress int int
  | Ui_Show_Indeterminate_Progress
  | Ui_Reset_Progress
  | Sleep int
  | Mutex_Lock
  | Mutex_Unlock
  | Platform_Provision
  | Ext4_Filesystem_Checks string
  | Erase_Partition string
  | Apply_Sw_Update string

text \<open>
  How a function ends when it does not simply hand a value on: it returns to its caller,
  the process exits in \<^verbatim>\<open>die()\<close>, the machine restarts, control passes to another kernel,
  or the C code has left defined behaviour (a read past the payload, a signed overflow).

  Modelled from the spec: \<^verbatim>\<open>die()\<close> is declared outside the two source files. The spec
  calls the errors that reach it fatal: the process terminates. A call of \<^verbatim>\<open>die()\<close> is
  the fate \<open>Died\<close>, and nothing of the caller runs after it.
\<close>

datatype fate = Returned | Died | Rebooted | Booted | Undefined

datatype 'a step = Next 'a | Done fate

definition and_then :: "event list \<times> 'a step \<Rightarrow> ('a \<Rightarrow> event list \<times> 'b step) \<Rightarrow> event list \<times> 'b step" where
  "and_then m f =
     (case m of
        (tr, Done ft) \<Rightarrow> (tr, Done ft)
      | (tr, Next x) \<Rightarrow> (case f x of (tr', r) \<Rightarrow> (tr @ tr', r)))"

definition fastboot_fail :: "string \<Rightarrow> event list \<times> 'a step" where
  "fastboot_fail reason = ([Reply (FAIL reason)], Done Returned)"

definition fastboot_okay :: "string \<Rightarrow> event list \<times> 'a step" where
  "fastboot_okay info = ([Reply (OKAY info)], Done Returned)"

definition finish :: "event list \<times> unit step \<Rightarrow> event list \<times> fate" where
  "finish m = (case m of (tr, Next _) \<Rightarrow> (tr, Returned) | (tr, Done ft) \<Rightarrow> (tr, ft))"

subsection \<open>\<^verbatim>\<open>cmd_erase\<close>\<close>

definition cmd_erase :: "sys \<Rightarrow> string \<Rightarrow> event list \<times> fate" where
  "cmd_erase env part_name =
     (case find_part env part_name of
        None \<Rightarrow> ([Reply (FAIL ''unknown partition name'')], Returned)
      | Some ptn \<Rightarrow>
         (case find_part_device env (name ptn) of
            None \<Rightarrow> ([Reply (FAIL ''find_part_device failed!'')], Died)
          | Some pdevice \<Rightarrow>
             if \<not> is_valid_blkdev env pdevice then
               ([Blkdev_Check pdevice,
                 Reply (FAIL ''invalid destination node. partition disks?'')], Returned)
             else
               (case type ptn of
                  PC_PART_TYPE_LINUX \<Rightarrow>
                    (let cmd = ''/system/bin/make_ext4fs -L '' @ name ptn @ '' '' @ pdevice in
                     if \<not> asprintf_ok env cmd then
                       ([Blkdev_Check pdevice, Reply (FAIL ''memory allocation error'')], Returned)
                     else if execute_command env cmd \<noteq> 0 then
                       ([Blkdev_Check pdevice, Execute cmd (execute_command env cmd),
                         Reply (FAIL ''make_ext4fs failed'')], Returned)
                     else
                       ([Blkdev_Check pdevice, Execute cmd (execute_command env cmd),
                         Reply (OKAY '''')], Returned))
                | PC_PART_TYPE_OTHER _ \<Rightarrow>
                    ([Blkdev_Check pdevice, Reply (FAIL ''Unsupported partition type'')],
                     Returned))))"

subsection \<open>\<^verbatim>\<open>cmd_flash\<close>\<close>

text \<open>
  The payload is \<^verbatim>\<open>sz\<close> bytes at \<^verbatim>\<open>data\<close>: the list \<open>data\<close>, with \<open>length data = sz\<close>.
  A read at an index is defined inside the payload only.
\<close>

definition byte_at :: "byte list \<Rightarrow> nat \<Rightarrow> byte option" where
  "byte_at data i = (if i < length data then Some (data ! i) else None)"

text \<open>
  The test of lines 172-173, with the left-to-right evaluation of \<^verbatim>\<open>&&\<close>:
  \<^verbatim>\<open>sz > 2 && data_bytes[0] == 0x1f && data_bytes[1] == 0x8b && data_bytes[3] == 8\<close>.
  \<open>None\<close>: the test reads a byte that is not part of the payload.
\<close>

definition gzip_header :: "byte list \<Rightarrow> bool option" where
  "gzip_header data =
     (if length data > 2 then
        (case byte_at data 0 of
           None \<Rightarrow> None
         | Some b0 \<Rightarrow>
            if b0 = 0x1f then
              (case byte_at data 1 of
                 None \<Rightarrow> None
               | Some b1 \<Rightarrow>
                  if b1 = 0x8b then
                    (case byte_at data 3 of
                       None \<Rightarrow> None
                     | Some b3 \<Rightarrow> Some (b3 = 8))
                  else Some False)
            else Some False)
      else Some False)"

definition flash_command :: "bool \<Rightarrow> string \<Rightarrow> string" where
  "flash_command gz device =
     (if gz then ''/system/bin/gzip -c -d | /system/bin/dd of='' @ device @ '' bs=8192''
      else ''/system/bin/dd of='' @ device @ '' bs=8192'')"

text \<open>Lines 170-204: choose the pipeline, open it, write the payload, close, sync.\<close>

definition flash_write :: "sys \<Rightarrow> string \<Rightarrow> byte list \<Rightarrow> event list \<times> unit step" where
  "flash_write env device data =
     (case gzip_header data of
        None \<Rightarrow> ([], Done Undefined)
      | Some gz \<Rightarrow>
         (let cmd = flash_command gz device in
          if \<not> asprintf_ok env cmd then fastboot_fail ''memory allocation error''
          else if \<not> popen_ok env cmd then
            ([Popen cmd, Reply (FAIL ''popen failure'')], Done Returned)
          else if length data \<noteq> fwrite env cmd data then
            ([Popen cmd, Fwrite data (fwrite env cmd data),
              Reply (FAIL ''image write failure''), Pclose], Done Returned)
          else
            ([Popen cmd, Fwrite data (fwrite env cmd data), Pclose, Sync], Next ())))"

text \<open>Lines 208-220: after a write to the disk node, re-read the partition table.\<close>

definition flash_resync :: "sys \<Rightarrow> string \<Rightarrow> event list \<times> unit step" where
  "flash_resync env device =
     (if device = disk_device env then
        (if \<not> open_ok env device then
           ([Open_Dev device, Reply (FAIL ''could not open device node'')], Done Returned)
         else ([Open_Dev device, Reread_Partition_Table, Close_Dev], Next ()))
      else ([], Next ()))"

text \<open>Lines 222-248: the value of \<^verbatim>\<open>do_ext_checks\<close>.\<close>

definition flash_probe :: "sys \<Rightarrow> string \<Rightarrow> part_info option \<Rightarrow> event list \<times> bool step" where
  "flash_probe env device ptn =
     (case ptn of
        None \<Rightarrow> ([], Next False)
      | Some p \<Rightarrow>
         if type p = PC_PART_TYPE_LINUX then
           (if \<not> open_ok env device then
              ([Open_Dev device, Reply (FAIL ''could not open device node'')], Done Returned)
            else if lseek env device EXT_SUPERBLOCK_OFFSET \<noteq> EXT_SUPERBLOCK_OFFSET then
              ([Open_Dev device, Seek EXT_SUPERBLOCK_OFFSET,
                Reply (FAIL ''could not seek to superblock offset''), Close_Dev], Done Returned)
            else
              (case read_superblock env device of
                 None \<Rightarrow>
                   ([Open_Dev device, Seek EXT_SUPERBLOCK_OFFSET, Read_Superblock None,
                     Reply (FAIL ''couldn't read superblock''), Close_Dev], Done Returned)
               | Some superblock \<Rightarrow>
                   ([Open_Dev device, Seek EXT_SUPERBLOCK_OFFSET,
                     Read_Superblock (Some superblock), Close_Dev],
                    Next (EXT3_SUPER_MAGIC = s_magic superblock))))
         else ([], Next False))"

text \<open>Lines 250-263: resize the filesystem to fill the partition.\<close>

definition flash_resize :: "sys \<Rightarrow> string \<Rightarrow> event list \<times> unit step" where
  "flash_resize env device =
     (let cmd = ''/system/bin/resize2fs -F '' @ device in
      if \<not> asprintf_ok env cmd then fastboot_fail ''memory allocation error''
      else if execute_command env cmd \<noteq> 0 then
        ([Execute cmd (execute_command env cmd),
          Reply (FAIL ''could not resize filesystem to fill disk'')], Done Returned)
      else ([Execute cmd (execute_command env cmd)], Next ()))"

text \<open>Lines 265-279: run the checker.\<close>

definition flash_fsck :: "sys \<Rightarrow> string \<Rightarrow> event list \<times> unit step" where
  "flash_fsck env device =
     (let cmd = ''/system/bin/e2fsck -C 0 -fy '' @ device in
      if \<not> asprintf_ok env cmd then fastboot_fail ''memory allocation error''
      else
        (let ret = execute_command env cmd in
         if ret < 0 \<or> ret > 1 then
           ([Execute cmd ret, Reply (FAIL ''fsck of filesystem failed'')], Done Returned)
         else ([Execute cmd ret], Next ())))"

text \<open>Lines 281-294: set the mount count.\<close>

definition flash_tune :: "sys \<Rightarrow> string \<Rightarrow> event list \<times> unit step" where
  "flash_tune env device =
     (let cmd = ''/system/bin/tune2fs -C 1 '' @ device in
      if \<not> asprintf_ok env cmd then fastboot_fail ''memory allocation error''
      else if execute_command env cmd \<noteq> 0 then
        ([Execute cmd (execute_command env cmd), Reply (FAIL ''tune2fs failed'')],
         Done Returned)
      else ([Execute cmd (execute_command env cmd)], Next ()))"

text \<open>Lines 249-295: the body of \<^verbatim>\<open>if (do_ext_checks)\<close>.\<close>

definition flash_repair :: "sys \<Rightarrow> string \<Rightarrow> event list \<times> unit step" where
  "flash_repair env device =
     and_then (flash_resize env device) (\<lambda>_.
     and_then (flash_fsck env device) (\<lambda>_.
     flash_tune env device))"

text \<open>Lines 164-305: everything after the destination is known.\<close>

definition flash_device :: "sys \<Rightarrow> string \<Rightarrow> part_info option \<Rightarrow> byte list \<Rightarrow> event list \<times> fate" where
  "flash_device env device ptn data =
     finish
      (and_then
         (if \<not> is_valid_blkdev env device then
            ([Blkdev_Check device,
              Reply (FAIL ''invalid destination node. partition disks?'')], Done Returned)
          else ([Blkdev_Check device], Next ())) (\<lambda>_.
       and_then (flash_write env device data) (\<lambda>_.
       and_then (flash_resync env device) (\<lambda>_.
       and_then (flash_probe env device ptn) (\<lambda>do_ext_checks.
       and_then (if do_ext_checks then flash_repair env device else ([], Next ())) (\<lambda>_.
       fastboot_okay ''''))))))"

definition cmd_flash :: "sys \<Rightarrow> string \<Rightarrow> byte list \<Rightarrow> event list \<times> fate" where
  "cmd_flash env part_name data =
     (if part_name = ''disk'' then flash_device env (disk_device env) None data
      else if take 4 part_name = ''osip'' then
        (let entry_index = atoi env (drop 4 part_name) in
         if write_stitch_image env data entry_index \<noteq> 0 then
           ([Write_Stitch_Image data entry_index,
             Reply (FAIL ''write_stitch_image failure'')], Returned)
         else ([Write_Stitch_Image data entry_index, Reply (OKAY '''')], Returned))
      else
        (case find_part_device env part_name of
           None \<Rightarrow> ([Reply (FAIL ''unknown partition specified'')], Returned)
         | Some device \<Rightarrow> flash_device env device (find_part env part_name) data))"

subsection \<open>\<^verbatim>\<open>cmd_oem\<close>, \<^verbatim>\<open>cmd_boot\<close>, \<^verbatim>\<open>cmd_reboot\<close>\<close>







subsection \<open>The process-wide variables of \<^verbatim>\<open>droidboot.c\<close>\<close>

record globals =
  autoboot_enabled :: int
  g_2ndstageboot_part :: string
  g_2ndstageboot_dir :: string
  g_autoboot_delay_secs :: int
  g_update_pause :: int
  g_update_location :: "string option"

subsection \<open>\<^verbatim>\<open>start_default_kernel\<close> and \<^verbatim>\<open>cmd_continue\<close>\<close>



subsection \<open>The countdown\<close>

text \<open>
  The input thread calls \<^verbatim>\<open>disable_autoboot\<close> on every key event. The countdown thread
  spends its time in \<^verbatim>\<open>sleep(1)\<close>, so the key events are given as a schedule:
  \<open>key i\<close> says whether a key event arrives while iteration \<open>i\<close> of the loop sleeps
  (iterations are counted from 0).
\<close>

definition disable_autoboot :: "globals \<Rightarrow> globals" where
  "disable_autoboot g = (if autoboot_enabled g \<noteq> 0 then g\<lparr>autoboot_enabled := 0\<rparr> else g)"

text \<open>
  The loop of \<^verbatim>\<open>countdown\<close>: \<^verbatim>\<open>for ( ; seconds && autoboot_enabled; seconds--)\<close>.
  The result is the number of iterations run and the variables at the exit; \<open>None\<close> is the
  signed overflow of \<^verbatim>\<open>seconds--\<close> at \<^verbatim>\<open>INT_MIN\<close>.
\<close>

function countdown_loop :: "(nat \<Rightarrow> bool) \<Rightarrow> nat \<Rightarrow> int \<Rightarrow> globals \<Rightarrow> (nat \<times> globals) option" where
  "countdown_loop key i seconds g =
     (if seconds \<noteq> 0 \<and> autoboot_enabled g \<noteq> 0 then
        (if seconds \<le> INT_MIN then None
         else countdown_loop key (Suc i) (seconds - 1)
                (if key i then disable_autoboot g else g))
      else Some (i, g))"
  by pat_completeness auto
termination
  by (relation "measure (\<lambda>(key, i, seconds, g). nat (seconds - INT_MIN))") auto

definition countdown :: "(nat \<Rightarrow> bool) \<Rightarrow> int \<Rightarrow> globals \<Rightarrow> event list \<times> (int \<times> globals) step" where
  "countdown key seconds g =
     (case countdown_loop key 0 seconds (g\<lparr>autoboot_enabled := 1\<rparr>) of
        None \<Rightarrow> ([Ui_Show_Progress 1 seconds], Done Undefined)
      | Some (n, g') \<Rightarrow>
          ([Ui_Show_Progress 1 seconds] @ replicate n (Sleep 1) @ [Ui_Reset_Progress],
           Next (autoboot_enabled g', g'\<lparr>autoboot_enabled := 0\<rparr>)))"

subsection \<open>Provisioning\<close>

definition provision_partition :: "sys \<Rightarrow> string \<Rightarrow> Volume \<Rightarrow> event list \<times> int" where
  "provision_partition env name' source_volume =
     (case find_part env name' of
        None \<Rightarrow> ([], - 1)
      | Some ptn \<Rightarrow>
         (case find_part_device env (name ptn) of
            None \<Rightarrow> ([], - 1)
          | Some device \<Rightarrow>
             if vol_device source_volume = device then
               (if ext4_filesystem_checks env device ptn \<noteq> 0 then
                  ([Ext4_Filesystem_Checks device], - 1)
                else ([Ext4_Filesystem_Checks device], 0))
             else
               (if erase_partition env ptn \<noteq> 0 then ([Erase_Partition (name ptn)], - 1)
                else ([Erase_Partition (name ptn)], 0))))"

definition provisioning_checks :: "sys \<Rightarrow> Volume \<Rightarrow> event list \<times> int" where
  "provisioning_checks env source_device =
     (case platform_provision_function env of
        Some r \<Rightarrow>
          if r \<noteq> 0 then ([Platform_Provision], - 1)
          else
            (case provision_partition env (CACHE_PTN env) source_device of
               (tr1, r1) \<Rightarrow>
                 if r1 \<noteq> 0 then (Platform_Provision # tr1, - 1)
                 else
                   (case provision_partition env (DATA_PTN env) source_device of
                      (tr2, r2) \<Rightarrow>
                        if r2 \<noteq> 0 then (Platform_Provision # tr1 @ tr2, - 1)
                        else (Platform_Provision # tr1 @ tr2, 0)))
      | None \<Rightarrow>
          (case provision_partition env (CACHE_PTN env) source_device of
             (tr1, r1) \<Rightarrow>
               if r1 \<noteq> 0 then (tr1, - 1)
               else
                 (case provision_partition env (DATA_PTN env) source_device of
                    (tr2, r2) \<Rightarrow>
                      if r2 \<noteq> 0 then (tr1 @ tr2, - 1) else (tr1 @ tr2, 0))))"

subsection \<open>Detection of an update package\<close>

definition AUTO_UPDATE_FNAME :: "sys \<Rightarrow> string" where
  "AUTO_UPDATE_FNAME env = DEVICE_NAME env @ ''.auto-ota.zip''"

text \<open>The result is the path found (\<open>None\<close> is \<^verbatim>\<open>NULL\<close>).\<close>

definition detect_sw_update :: "sys \<Rightarrow> Volume \<Rightarrow> event list \<times> string option step" where
  "detect_sw_update env vol =
     (let mountpoint = ''/mnt'' @ vol_mount_point vol in
      if \<not> asprintf_ok env mountpoint then ([], Done Died)
      else
        (let filename = mountpoint @ ''/'' @ AUTO_UPDATE_FNAME env in
         if \<not> asprintf_ok env filename then ([], Done Died)
         else
           (let look =
                  (\<lambda>tr. case stat env filename of
                     Stat_Ok \<Rightarrow>
                       if \<not> strdup_ok env (drop 4 filename) then
                         (tr @ [Stat filename], Done Died)
                       else (tr @ [Stat filename, Umount mountpoint],
                             Next (Some (drop 4 filename)))
                   | _ \<Rightarrow> (tr @ [Stat filename, Umount mountpoint], Next None)) in
            if mount_partition_device env (vol_device vol) (vol_fs_type vol) mountpoint \<noteq> 0
            then
              (case vol_device2 vol of
                 None \<Rightarrow>
                   ([Mount_Device (vol_device vol) mountpoint, Umount mountpoint], Next None)
               | Some dev2 \<Rightarrow>
                   if mount_partition_device env dev2 (vol_fs_type vol) mountpoint \<noteq> 0 then
                     ([Mount_Device (vol_device vol) mountpoint, Mount_Device dev2 mountpoint,
                       Umount mountpoint], Next None)
                   else look [Mount_Device (vol_device vol) mountpoint,
                              Mount_Device dev2 mountpoint])
            else look [Mount_Device (vol_device vol) mountpoint])))"

subsection \<open>\<^verbatim>\<open>try_update_sw\<close>\<close>

text \<open>Lines 295-314: the part under \<^verbatim>\<open>action_mutex\<close>.\<close>

definition update_locked :: "sys \<Rightarrow> Volume \<Rightarrow> string \<Rightarrow> globals \<Rightarrow> event list \<times> (int \<times> globals) step" where
  "update_locked env vol update_location g =
     (case provisioning_checks env vol of
        (tr, r) \<Rightarrow>
          if r \<noteq> 0 then
            ([Mutex_Lock, Ui_Show_Indeterminate_Progress] @ tr @
             [Ui_Reset_Progress, Mutex_Unlock], Next (- 1, g))
          else if g_update_pause g = 0 then
            (if apply_sw_update_returns env update_location then
               ([Mutex_Lock, Ui_Show_Indeterminate_Progress] @ tr @
                [Apply_Sw_Update update_location, Ui_Reset_Progress, Mutex_Unlock],
                Next (- 1, g))
             else
               ([Mutex_Lock, Ui_Show_Indeterminate_Progress] @ tr @
                [Apply_Sw_Update update_location], Done Rebooted))
          else
            ([Mutex_Lock, Ui_Show_Indeterminate_Progress] @ tr @
             [Ui_Reset_Progress, Mutex_Unlock],
             Next (0, g\<lparr>g_update_location := Some update_location\<rparr>)))"

definition try_update_sw :: "sys \<Rightarrow> (nat \<Rightarrow> bool) \<Rightarrow> Volume \<Rightarrow> int \<Rightarrow> globals \<Rightarrow> event list \<times> (int \<times> globals) step" where
  "try_update_sw env key vol use_countdown g =
     (if g_update_location g \<noteq> None then ([], Next (0, g))
      else
        and_then (detect_sw_update env vol) (\<lambda>found.
          case found of
            None \<Rightarrow> ([], Next (0, g))
          | Some update_location \<Rightarrow>
              if use_countdown \<noteq> 0 then
                and_then ([Ui_Show_Text 1], Next ()) (\<lambda>_.
                and_then (countdown key (g_autoboot_delay_secs g) g) (\<lambda>(countdown_complete, g').
                and_then ([Ui_Show_Text 0], Next ()) (\<lambda>_.
                  if countdown_complete = 0 then ([], Next (0, g'))
                  else update_locked env vol update_location g')))
              else update_locked env vol update_location g))"

subsection \<open>Reading a run\<close>

text \<open>The replies sent to the host, in order, and the number of bytes the pipeline took.\<close>

definition replies :: "event list \<Rightarrow> reply list" where
  "replies tr = [r. Reply r \<leftarrow> tr]"

definition bytes_written :: "event list \<Rightarrow> nat" where
  "bytes_written tr = sum_list [n. Fwrite d n \<leftarrow> tr]"

subsection \<open>A concrete device\<close>

text \<open>
  A disk with four partitions, of which \<open>boot\<close> is not of the Linux type, on which every
  call succeeds; the variants below make one call fail. They are the inputs at which the
  theorems are instantiated.
\<close>

definition board :: sys where
  "board =
     \<lparr> disk_device = ''/dev/block/mmcblk0'',
       find_part = (\<lambda>n.
         if n = ''boot'' then Some \<lparr>name = ''boot'', type = PC_PART_TYPE_OTHER 0\<rparr>
         else if n = ''system'' then Some \<lparr>name = ''system'', type = PC_PART_TYPE_LINUX\<rparr>
         else if n = ''cache'' then Some \<lparr>name = ''cache'', type = PC_PART_TYPE_LINUX\<rparr>
         else if n = ''data'' then Some \<lparr>name = ''data'', type = PC_PART_TYPE_LINUX\<rparr>
         else None),
       find_part_device = (\<lambda>n.
         if n = ''boot'' then Some ''/dev/block/mmcblk0p1''
         else if n = ''system'' then Some ''/dev/block/mmcblk0p2''
         else if n = ''cache'' then Some ''/dev/block/mmcblk0p3''
         else if n = ''data'' then Some ''/dev/block/mmcblk0p4''
         else None),
       is_valid_blkdev = (\<lambda>_. True),
       asprintf_ok = (\<lambda>_. True),
       execute_command = (\<lambda>_. 0),
       popen_ok = (\<lambda>_. True),
       fwrite = (\<lambda>_ data. length data),
       open_ok = (\<lambda>_. True),
       lseek = (\<lambda>_ offset. offset),
       read_superblock = (\<lambda>_. Some \<lparr>s_magic = 0xEF53\<rparr>),
       write_stitch_image = (\<lambda>_ _. 0),
       atoi = (\<lambda>_. 0),
       apply_disk_config = 0,
       reboot_ok = True,
       mount_partition = (\<lambda>_. 0),
       kexec_linux = (\<lambda>_. True),
       mount_partition_device = (\<lambda>_ _ _. 0),
       stat = (\<lambda>_. Stat_Ok),
       strdup_ok = (\<lambda>_. True),
       platform_provision_function = None,
       ext4_filesystem_checks = (\<lambda>_ _. 0),
       erase_partition = (\<lambda>_. 0),
       apply_sw_update_returns = (\<lambda>_. False),
       DEVICE_NAME = ''mfld_pr2'',
       CACHE_PTN = ''cache'',
       DATA_PTN = ''data'' \<rparr>"

definition board_without_nodes :: sys where
  "board_without_nodes = board\<lparr>find_part_device := (\<lambda>_. None)\<rparr>"

definition board_short_write :: sys where
  "board_short_write = board\<lparr>fwrite := (\<lambda>_ _. 4)\<rparr>"

definition board_unformatted :: sys where
  "board_unformatted = board\<lparr>read_superblock := (\<lambda>_. Some \<lparr>s_magic = 0\<rparr>)\<rparr>"

definition board_fsck :: "int \<Rightarrow> sys" where
  "board_fsck status =
     board\<lparr>execute_command :=
       (\<lambda>cmd. if cmd = ''/system/bin/e2fsck -C 0 -fy /dev/block/mmcblk0p2'' then status else 0)\<rparr>"

definition board_no_kernel :: sys where
  "board_no_kernel = board\<lparr>kexec_linux := (\<lambda>_. False)\<rparr>"

text \<open>Ten bytes that do not start with the gzip magic, and the ten bytes of a gzip header
  (deflate, no flags, no time stamp, Unix).\<close>

definition boot_payload :: "byte list" where
  "boot_payload = [0x41, 0x4E, 0x44, 0x52, 0x4F, 0x49, 0x44, 0x21, 0x00, 0x00]"

definition gzip_payload :: "byte list" where
  "gzip_payload = [0x1F, 0x8B, 0x08, 0x00, 0x00, 0x00, 0x00, 0x00, 0x00, 0x03]"

definition sdcard :: Volume where
  "sdcard = \<lparr> vol_mount_point = ''/sdcard'', vol_fs_type = ''vfat'',
              vol_device = ''/dev/block/mmcblk1p1'', vol_device2 = None \<rparr>"

definition boot_globals :: globals where
  "boot_globals =
     \<lparr> autoboot_enabled = 0, g_2ndstageboot_part = ''data'',
       g_2ndstageboot_dir = ''2ndstageboot'', g_autoboot_delay_secs = 8,
       g_update_pause = 1, g_update_location = None \<rparr>"

definition no_key :: "nat \<Rightarrow> bool" where
  "no_key i = False"

definition key_at :: "nat \<Rightarrow> nat \<Rightarrow> bool" where
  "key_at k i = (i = k)"

section \<open>Properties\<close>

subsection \<open>Running a staged computation\<close>

lemma replies_simps:
  "replies [] = []"
  "replies (tr @ tr') = replies tr @ replies tr'"
  "replies (e # tr) = (case e of Reply r \<Rightarrow> r # replies tr | _ \<Rightarrow> replies tr)"
  by (simp_all add: replies_def split: event.splits)

lemma bytes_written_simps:
  "bytes_written [] = 0"
  "bytes_written (tr @ tr') = bytes_written tr + bytes_written tr'"
  "bytes_written (e # tr) = (case e of Fwrite d n \<Rightarrow> n + bytes_written tr | _ \<Rightarrow> bytes_written tr)"
  by (simp_all add: bytes_written_def split: event.splits)

lemma and_then_Next: "and_then (tr, Next x) f = (tr @ fst (f x), snd (f x))"
  by (simp add: and_then_def split_def)

lemma and_then_Done: "and_then (tr, Done ft) f = (tr, Done ft)"
  by (simp add: and_then_def)

lemma and_then_if: "and_then (if c then a else b) f = (if c then and_then a f else and_then b f)"
  by simp

lemma and_then_case_option:
  "and_then (case x of None \<Rightarrow> a | Some y \<Rightarrow> b y) f =
     (case x of None \<Rightarrow> and_then a f | Some y \<Rightarrow> and_then (b y) f)"
  by (cases x) simp_all

lemma finish_simps:
  "finish (tr, Next u) = (tr, Returned)"
  "finish (tr, Done ft) = (tr, ft)"
  "finish (if c then a else b) = (if c then finish a else finish b)"
  "finish (case x of None \<Rightarrow> a | Some y \<Rightarrow> h y) =
     (case x of None \<Rightarrow> finish a | Some y \<Rightarrow> finish (h y))"
  by (simp_all add: finish_def split: option.splits)

lemmas run = and_then_Next and_then_Done and_then_if and_then_case_option finish_simps
  fastboot_fail_def fastboot_okay_def Let_def replies_simps bytes_written_simps

lemmas flash_stages = flash_write_def flash_resync_def flash_probe_def
  flash_repair_def flash_resize_def flash_fsck_def flash_tune_def

lemmas board_defs = board_def board_without_nodes_def board_short_write_def
  board_unformatted_def board_fsck_def board_no_kernel_def boot_payload_def gzip_payload_def
  byte_at_def gzip_header_def flash_command_def EXT3_SUPER_MAGIC_def EXT_SUPERBLOCK_OFFSET_def

subsection \<open>The gzip test\<close>

lemma gzip_header_True_iff:
  "gzip_header data = Some True \<longleftrightarrow>
     3 < length data \<and> data ! 0 = 0x1F \<and> data ! 1 = 0x8B \<and> data ! 3 = 8"
  by (auto simp: gzip_header_def byte_at_def split: if_splits option.splits)

lemma gzip_header_None_iff:
  "gzip_header data = None \<longleftrightarrow> length data = 3 \<and> data ! 0 = 0x1F \<and> data ! 1 = 0x8B"
  by (auto simp: gzip_header_def byte_at_def split: if_splits option.splits)

text \<open>
  C10. There is a payload of exactly three bytes, starting \<open>0x1F 0x8B\<close>, on which the gzip
  test of the flash handler passes its guard \<open>sz > 2\<close> and then reads the byte at index 3,
  which is one past the end of the payload: the read has no value, and neither has the
  test nor the write stage built on it.
\<close>

theorem gzip_test_reads_past_payload:
  "\<exists>data. length data = 3 \<and> byte_at data 0 = Some 0x1F \<and> byte_at data 1 = Some 0x8B
      \<and> 2 < length data \<and> byte_at data 3 = None \<and> gzip_header data = None
      \<and> (\<forall>env device. flash_write env device data = ([], Done Undefined))"
  by (rule exI [of _ "[0x1F, 0x8B, 0x08]"])
     (simp add: byte_at_def gzip_header_def flash_write_def)

subsection \<open>The executions of the flash handler\<close>

lemma flash_device_short_write:
  "flash_device env device ptn data = (tr, ft) \<Longrightarrow> Fwrite d n \<in> set tr \<Longrightarrow> n < length d \<Longrightarrow>
   replies tr = [FAIL ''image write failure''] \<and> ft = Returned \<and> d = data"
  by (auto simp: flash_device_def flash_stages run split: if_splits option.splits)


lemma flash_device_never_unsupported:
  "flash_device env device ptn data = (tr, ft) \<Longrightarrow>
     FAIL ''Unsupported partition type'' \<notin> set (replies tr)"
  by (auto simp: flash_device_def flash_stages run split: if_splits option.splits)

lemma cmd_flash_cases:
  assumes "cmd_flash env part_name data = (tr, ft)"
  obtains
    (disk) "part_name = ''disk''" "flash_device env (disk_device env) None data = (tr, ft)"
  | (osip) "part_name \<noteq> ''disk''" "take 4 part_name = ''osip''" "ft = Returned"
      "tr = [Write_Stitch_Image data (atoi env (drop 4 part_name)),
             Reply (FAIL ''write_stitch_image failure'')]
       \<or> tr = [Write_Stitch_Image data (atoi env (drop 4 part_name)), Reply (OKAY '''')]"
  | (unknown) "part_name \<noteq> ''disk''" "take 4 part_name \<noteq> ''osip''"
      "find_part_device env part_name = None"
      "tr = [Reply (FAIL ''unknown partition specified'')]" "ft = Returned"
  | (named) device where "part_name \<noteq> ''disk''" "take 4 part_name \<noteq> ''osip''"
      "find_part_device env part_name = Some device"
      "flash_device env device (find_part env part_name) data = (tr, ft)"
  using assms by (auto simp: cmd_flash_def Let_def split: if_splits option.splits)

text \<open>
  C7. In every run of the flash handler in which the pipeline takes fewer bytes than the
  payload has, the handler sends exactly one reply, the failure "image write failure",
  and so never a success; it returns to the dispatcher.
\<close>

theorem flash_short_write_fails:
  assumes "Fwrite d n \<in> set (fst (cmd_flash env part_name data))" and "n < length d"
  shows "replies (fst (cmd_flash env part_name data)) = [FAIL ''image write failure'']
         \<and> (\<forall>info. OKAY info \<notin> set (replies (fst (cmd_flash env part_name data))))
         \<and> snd (cmd_flash env part_name data) = Returned"
proof -
  obtain tr ft where run: "cmd_flash env part_name data = (tr, ft)"
    by (cases "cmd_flash env part_name data")
  from assms run have w: "Fwrite d n \<in> set tr" by simp
  from run have "replies tr = [FAIL ''image write failure''] \<and> ft = Returned"
  proof (cases rule: cmd_flash_cases)
    case disk
    with w assms(2) show ?thesis by (blast dest: flash_device_short_write)
  next
    case osip
    with w show ?thesis by auto
  next
    case unknown
    with w show ?thesis by simp
  next
    case (named device)
    with w assms(2) show ?thesis by (blast dest: flash_device_short_write)
  qed
  with run show ?thesis by simp
qed

theorem flash_short_write_fails_witness:
  "Fwrite boot_payload 4 \<in> set (fst (cmd_flash board_short_write ''boot'' boot_payload))
   \<and> 4 < length boot_payload
   \<and> replies (fst (cmd_flash board_short_write ''boot'' boot_payload))
       = [FAIL ''image write failure'']
   \<and> snd (cmd_flash board_short_write ''boot'' boot_payload) = Returned"
proof -
  have h1: "Fwrite boot_payload 4 \<in> set (fst (cmd_flash board_short_write ''boot'' boot_payload))"
    by (simp add: cmd_flash_def flash_device_def flash_stages run board_defs)
  have h2: "4 < length boot_payload"
    by (simp add: boot_payload_def)
  from flash_short_write_fails [OF h1 h2] h1 h2 show ?thesis by simp
qed


subsection \<open>Unknown partitions\<close>

text \<open>
  C3, as stated, fails: the name \<open>disk\<close> is not in the partition directory of the example
  device, and the flash handler, which never looks that name up, writes the payload to the
  disk node and replies success.
\<close>

theorem flash_unknown_name_counterexample:
  "find_part board ''disk'' = None \<and> find_part_device board ''disk'' = None
   \<and> cmd_flash board ''disk'' boot_payload =
       ([Blkdev_Check ''/dev/block/mmcblk0'',
         Popen ''/system/bin/dd of=/dev/block/mmcblk0 bs=8192'',
         Fwrite boot_payload 10, Pclose, Sync,
         Open_Dev ''/dev/block/mmcblk0'', Reread_Partition_Table, Close_Dev,
         Reply (OKAY '''')], Returned)"
  by (simp add: cmd_flash_def flash_device_def flash_stages run board_defs)

text \<open>
  C3, amended. For every partition name whose lookup fails, the erase handler replies the
  failure "unknown partition name"; the flash handler replies the failure "unknown
  partition specified" unless the name is \<open>disk\<close> or begins with \<open>osip\<close>, which it does not
  look up. In both cases the reply is the only thing the handler does: no device node is
  checked, opened or written, and the handler returns.
\<close>

theorem unknown_partition_no_io:
  "(find_part env part_name = None \<longrightarrow>
      cmd_erase env part_name = ([Reply (FAIL ''unknown partition name'')], Returned))
   \<and> (find_part_device env part_name = None \<and> part_name \<noteq> ''disk''
        \<and> take 4 part_name \<noteq> ''osip'' \<longrightarrow>
      cmd_flash env part_name data = ([Reply (FAIL ''unknown partition specified'')], Returned))"
  by (simp add: cmd_erase_def cmd_flash_def)

theorem unknown_partition_no_io_witness:
  "find_part board ''recovery'' = None
   \<and> cmd_erase board ''recovery'' = ([Reply (FAIL ''unknown partition name'')], Returned)
   \<and> find_part_device board ''recovery'' = None \<and> ''recovery'' \<noteq> ''disk''
   \<and> take 4 ''recovery'' \<noteq> ''osip''
   \<and> cmd_flash board ''recovery'' boot_payload =
       ([Reply (FAIL ''unknown partition specified'')], Returned)"
proof -
  have h1: "find_part board ''recovery'' = None"
    by (simp add: board_def)
  have h2: "find_part_device board ''recovery'' = None \<and> ''recovery'' \<noteq> ''disk''
            \<and> take 4 ''recovery'' \<noteq> ''osip''"
    by (simp add: board_def)
  from unknown_partition_no_io [of board "''recovery''" boot_payload] h1 h2
  show ?thesis by simp
qed

subsection \<open>Routing of the payload\<close>

text \<open>
  C4, on the code: the ten bytes of a gzip header whose compression method (the byte at
  offset 2) is 8, deflate, and whose flag byte (offset 3) is 0 fail the handler's test,
  which looks at offset 3, and are written to the partition through the plain \<open>dd\<close>
  pipeline, not decompressed.
\<close>

theorem flash_deflate_payload_written_raw:
  "byte_at gzip_payload 0 = Some 0x1F \<and> byte_at gzip_payload 1 = Some 0x8B
   \<and> byte_at gzip_payload 2 = Some 8
   \<and> gzip_header gzip_payload = Some False
   \<and> cmd_flash board ''boot'' gzip_payload =
       ([Blkdev_Check ''/dev/block/mmcblk0p1'',
         Popen ''/system/bin/dd of=/dev/block/mmcblk0p1 bs=8192'',
         Fwrite gzip_payload 10, Pclose, Sync, Reply (OKAY '''')], Returned)"
  by (simp add: cmd_flash_def flash_device_def flash_stages run board_defs)

subsection \<open>Partitions of an unsupported type\<close>

text \<open>
  C1, as stated, fails: \<open>boot\<close> on the example device is not of the Linux type, the payload
  is ten bytes without a gzip header, and the flash handler writes all ten bytes and
  replies success.
\<close>

theorem flash_unsupported_type_counterexample:
  "length boot_payload = 10 \<and> gzip_header boot_payload = Some False
   \<and> find_part_device board ''boot'' = Some ''/dev/block/mmcblk0p1''
   \<and> map_option type (find_part board ''boot'') = Some (PC_PART_TYPE_OTHER 0)
   \<and> cmd_flash board ''boot'' boot_payload =
       ([Blkdev_Check ''/dev/block/mmcblk0p1'',
         Popen ''/system/bin/dd of=/dev/block/mmcblk0p1 bs=8192'',
         Fwrite boot_payload 10, Pclose, Sync, Reply (OKAY '''')], Returned)
   \<and> replies (fst (cmd_flash board ''boot'' boot_payload)) = [OKAY '''']
   \<and> bytes_written (fst (cmd_flash board ''boot'' boot_payload)) = 10"
  by (simp add: cmd_flash_def flash_device_def flash_stages run board_defs)

lemma cmd_flash_never_unsupported:
  "FAIL ''Unsupported partition type'' \<notin> set (replies (fst (cmd_flash env part_name data)))"
proof -
  obtain tr ft where run: "cmd_flash env part_name data = (tr, ft)"
    by (cases "cmd_flash env part_name data")
  from run have "FAIL ''Unsupported partition type'' \<notin> set (replies tr)"
    by (cases rule: cmd_flash_cases)
       (auto simp: replies_simps dest: flash_device_never_unsupported)
  with run show ?thesis by simp
qed

text \<open>
  C1, amended. For every flash command whose payload is a 10-byte non-gzip buffer and whose
  named partition resolves to a partition of an unsupported type, the handler does not
  reply "Unsupported partition type" (only the erase handler rejects a type). The type
  decides nothing but the filesystem repair: when the device node is valid, the \<open>dd\<close>
  pipeline opens and takes the ten bytes, and the node (should it be the disk's own) can
  be opened, the handler has written the ten bytes, has run no repair tool, replies
  success with an empty message and returns.
\<close>

theorem flash_unsupported_type_written:
  assumes "length data = 10" and "gzip_header data = Some False"
    and "part_name \<noteq> ''disk''" and "take 4 part_name \<noteq> ''osip''"
    and "find_part_device env part_name = Some device"
    and "find_part env part_name = Some ptn" and "type ptn \<noteq> PC_PART_TYPE_LINUX"
  shows "FAIL ''Unsupported partition type'' \<notin> set (replies (fst (cmd_flash env part_name data)))
    \<and> (is_valid_blkdev env device \<and> asprintf_ok env (flash_command False device)
        \<and> popen_ok env (flash_command False device)
        \<and> fwrite env (flash_command False device) data = 10
        \<and> (device = disk_device env \<longrightarrow> open_ok env device) \<longrightarrow>
         replies (fst (cmd_flash env part_name data)) = [OKAY '''']
         \<and> bytes_written (fst (cmd_flash env part_name data)) = 10
         \<and> Fwrite data 10 \<in> set (fst (cmd_flash env part_name data))
         \<and> Popen (''/system/bin/dd of='' @ device @ '' bs=8192'')
              \<in> set (fst (cmd_flash env part_name data))
         \<and> (\<forall>c r. Execute c r \<notin> set (fst (cmd_flash env part_name data)))
         \<and> snd (cmd_flash env part_name data) = Returned)"
  using assms cmd_flash_never_unsupported [of env part_name data]
  by (auto simp: cmd_flash_def flash_device_def flash_stages run flash_command_def)

theorem flash_unsupported_type_written_witness:
  "length boot_payload = 10 \<and> gzip_header boot_payload = Some False
   \<and> ''boot'' \<noteq> ''disk'' \<and> take 4 ''boot'' \<noteq> ''osip''
   \<and> find_part_device board ''boot'' = Some ''/dev/block/mmcblk0p1''
   \<and> find_part board ''boot'' = Some \<lparr>name = ''boot'', type = PC_PART_TYPE_OTHER 0\<rparr>
   \<and> type \<lparr>name = ''boot'', type = PC_PART_TYPE_OTHER 0\<rparr> \<noteq> PC_PART_TYPE_LINUX
   \<and> is_valid_blkdev board ''/dev/block/mmcblk0p1''
   \<and> asprintf_ok board (flash_command False ''/dev/block/mmcblk0p1'')
   \<and> popen_ok board (flash_command False ''/dev/block/mmcblk0p1'')
   \<and> fwrite board (flash_command False ''/dev/block/mmcblk0p1'') boot_payload = 10
   \<and> ''/dev/block/mmcblk0p1'' \<noteq> disk_device board
   \<and> FAIL ''Unsupported partition type''
        \<notin> set (replies (fst (cmd_flash board ''boot'' boot_payload)))
   \<and> replies (fst (cmd_flash board ''boot'' boot_payload)) = [OKAY '''']
   \<and> bytes_written (fst (cmd_flash board ''boot'' boot_payload)) = 10
   \<and> snd (cmd_flash board ''boot'' boot_payload) = Returned"
proof -
  have h: "length boot_payload = 10" "gzip_header boot_payload = Some False"
    "''boot'' \<noteq> ''disk''" "take 4 ''boot'' \<noteq> ''osip''"
    "find_part_device board ''boot'' = Some ''/dev/block/mmcblk0p1''"
    "find_part board ''boot'' = Some \<lparr>name = ''boot'', type = PC_PART_TYPE_OTHER 0\<rparr>"
    "type \<lparr>name = ''boot'', type = PC_PART_TYPE_OTHER 0\<rparr> \<noteq> PC_PART_TYPE_LINUX"
    by (simp_all add: board_defs)
  have k: "is_valid_blkdev board ''/dev/block/mmcblk0p1''"
    "asprintf_ok board (flash_command False ''/dev/block/mmcblk0p1'')"
    "popen_ok board (flash_command False ''/dev/block/mmcblk0p1'')"
    "fwrite board (flash_command False ''/dev/block/mmcblk0p1'') boot_payload = 10"
    "''/dev/block/mmcblk0p1'' \<noteq> disk_device board"
    by (simp_all add: board_defs)
  from flash_unsupported_type_written [OF h] h k show ?thesis by simp
qed


subsection \<open>The filesystem repair\<close>

lemma flash_probe_True_iff:
  "snd (flash_probe env device ptn) = Next True \<longleftrightarrow>
     (\<exists>p sb. ptn = Some p \<and> type p = PC_PART_TYPE_LINUX \<and> open_ok env device
        \<and> lseek env device EXT_SUPERBLOCK_OFFSET = EXT_SUPERBLOCK_OFFSET
        \<and> read_superblock env device = Some sb \<and> s_magic sb = EXT3_SUPER_MAGIC)"
  by (auto simp: flash_probe_def split: option.splits)

lemma flash_device_execute:
  "flash_device env device ptn data = (tr, ft) \<Longrightarrow> Execute c r \<in> set tr \<Longrightarrow>
     \<exists>p sb. ptn = Some p \<and> type p = PC_PART_TYPE_LINUX
       \<and> Read_Superblock (Some sb) \<in> set tr \<and> s_magic sb = EXT3_SUPER_MAGIC"
  by (auto simp: flash_device_def flash_stages run split: if_splits option.splits)

lemma flash_device_read:
  "flash_device env device ptn data = (tr, ft) \<Longrightarrow> Read_Superblock x \<in> set tr \<Longrightarrow>
     \<exists>p. ptn = Some p \<and> type p = PC_PART_TYPE_LINUX"
  by (auto simp: flash_device_def flash_stages run split: if_splits option.splits)

lemma flash_device_magic:
  "flash_device env device ptn data = (tr, ft) \<Longrightarrow> Read_Superblock (Some sb) \<in> set tr \<Longrightarrow>
   s_magic sb = EXT3_SUPER_MAGIC \<Longrightarrow> asprintf_ok env (''/system/bin/resize2fs -F '' @ device) \<Longrightarrow>
     \<exists>r. Execute (''/system/bin/resize2fs -F '' @ device) r \<in> set tr"
  by (auto simp: flash_device_def flash_stages run split: if_splits option.splits)

lemma flash_device_no_magic:
  "flash_device env device ptn data = (tr, ft) \<Longrightarrow> Read_Superblock (Some sb) \<in> set tr \<Longrightarrow>
   s_magic sb \<noteq> EXT3_SUPER_MAGIC \<Longrightarrow>
     (\<exists>p. ptn = Some p \<and> type p = PC_PART_TYPE_LINUX) \<and> (\<forall>c r. Execute c r \<notin> set tr)
     \<and> replies tr = [OKAY ''''] \<and> ft = Returned"
  by (auto simp: flash_device_def flash_stages run split: if_splits option.splits)


lemma flash_device_repair:
  "flash_device env device ptn data = (tr, ft) \<Longrightarrow> Execute c r \<in> set tr \<Longrightarrow>
     \<exists>pre tr' r'. flash_repair env device = (tr', r')
       \<and> (\<forall>c r. Execute c r \<notin> set pre) \<and> replies pre = []
       \<and> (r' = Next () \<and> tr = pre @ tr' @ [Reply (OKAY '''')] \<and> ft = Returned
           \<or> r' = Done ft \<and> tr = pre @ tr')"
  by (cases "flash_repair env device"; cases "snd (flash_repair env device)")
     (auto simp: flash_device_def flash_write_def flash_resync_def flash_probe_def run
        split: if_splits option.splits)


lemma fst_finish: "fst (finish m) = fst m"
  by (cases m; cases "snd m") (simp_all add: finish_def)

lemma cmd_flash_named:
  "part_name \<noteq> ''disk'' \<Longrightarrow> take 4 part_name \<noteq> ''osip'' \<Longrightarrow>
   find_part_device env part_name = Some node \<Longrightarrow>
     cmd_flash env part_name data = flash_device env node (find_part env part_name) data"
  by (simp add: cmd_flash_def)

lemma flash_device_probe_on_inputs:
  assumes "is_valid_blkdev env node" and "gzip_header data = Some gz"
    and "asprintf_ok env (flash_command gz node)" and "popen_ok env (flash_command gz node)"
    and "fwrite env (flash_command gz node) data = length data"
    and "node = disk_device env \<longrightarrow> open_ok env node"
    and "ptn = Some p" and "type p = PC_PART_TYPE_LINUX" and "open_ok env node"
    and "lseek env node EXT_SUPERBLOCK_OFFSET = EXT_SUPERBLOCK_OFFSET"
    and "read_superblock env node = Some sb"
  shows "Read_Superblock (Some sb) \<in> set (fst (flash_device env node ptn data))"
  using assms
  by (simp add: flash_device_def flash_write_def flash_resync_def flash_probe_def
      and_then_Next and_then_Done fst_finish Let_def)

lemma flash_device_read_on_inputs:
  "flash_device env node ptn data = (tr, ft) \<Longrightarrow> Read_Superblock (Some sb) \<in> set tr \<Longrightarrow>
     open_ok env node \<and> lseek env node EXT_SUPERBLOCK_OFFSET = EXT_SUPERBLOCK_OFFSET
     \<and> read_superblock env node = Some sb"
  by (auto simp: flash_device_def flash_stages run split: if_splits option.splits)

lemma flash_device_full_run:
  assumes "is_valid_blkdev env node" and "gzip_header data = Some gz"
    and "asprintf_ok env (flash_command gz node)" and "popen_ok env (flash_command gz node)"
    and "fwrite env (flash_command gz node) data = length data"
    and "node = disk_device env \<longrightarrow> open_ok env node"
    and "ptn = Some p" and "type p = PC_PART_TYPE_LINUX" and "open_ok env node"
    and "lseek env node EXT_SUPERBLOCK_OFFSET = EXT_SUPERBLOCK_OFFSET"
    and "read_superblock env node = Some sb" and "s_magic sb = EXT3_SUPER_MAGIC"
    and "asprintf_ok env (''/system/bin/resize2fs -F '' @ node)"
    and "execute_command env (''/system/bin/resize2fs -F '' @ node) = 0"
    and "asprintf_ok env (''/system/bin/e2fsck -C 0 -fy '' @ node)"
    and "execute_command env (''/system/bin/e2fsck -C 0 -fy '' @ node) = 0
         \<or> execute_command env (''/system/bin/e2fsck -C 0 -fy '' @ node) = 1"
    and "asprintf_ok env (''/system/bin/tune2fs -C 1 '' @ node)"
    and "execute_command env (''/system/bin/tune2fs -C 1 '' @ node) = 0"
  shows "flash_device env node ptn data =
     ([Blkdev_Check node, Popen (flash_command gz node), Fwrite data (length data),
       Pclose, Sync] @
      (if node = disk_device env then [Open_Dev node, Reread_Partition_Table, Close_Dev]
       else []) @
      [Open_Dev node, Seek EXT_SUPERBLOCK_OFFSET, Read_Superblock (Some sb), Close_Dev,
       Execute (''/system/bin/resize2fs -F '' @ node) 0,
       Execute (''/system/bin/e2fsck -C 0 -fy '' @ node)
         (execute_command env (''/system/bin/e2fsck -C 0 -fy '' @ node)),
       Execute (''/system/bin/tune2fs -C 1 '' @ node) 0,
       Reply (OKAY '''')], Returned)"
  using assms(16)
proof
  assume "execute_command env (''/system/bin/e2fsck -C 0 -fy '' @ node) = 0"
  with assms show ?thesis by (simp add: flash_device_def flash_stages run)
next
  assume "execute_command env (''/system/bin/e2fsck -C 0 -fy '' @ node) = 1"
  with assms show ?thesis by (simp add: flash_device_def flash_stages run)
qed

lemma flash_device_skip_run:
  assumes "is_valid_blkdev env node" and "gzip_header data = Some gz"
    and "asprintf_ok env (flash_command gz node)" and "popen_ok env (flash_command gz node)"
    and "fwrite env (flash_command gz node) data = length data"
    and "node = disk_device env \<longrightarrow> open_ok env node"
    and "ptn = Some p" and "type p = PC_PART_TYPE_LINUX" and "open_ok env node"
    and "lseek env node EXT_SUPERBLOCK_OFFSET = EXT_SUPERBLOCK_OFFSET"
    and "read_superblock env node = Some sb" and "s_magic sb \<noteq> EXT3_SUPER_MAGIC"
  shows "flash_device env node ptn data =
     ([Blkdev_Check node, Popen (flash_command gz node), Fwrite data (length data),
       Pclose, Sync] @
      (if node = disk_device env then [Open_Dev node, Reread_Partition_Table, Close_Dev]
       else []) @
      [Open_Dev node, Seek EXT_SUPERBLOCK_OFFSET, Read_Superblock (Some sb), Close_Dev,
       Reply (OKAY '''')], Returned)"
  using assms by (simp add: flash_device_def flash_stages run)

lemma flash_repair_sequence:
  assumes "asprintf_ok env (''/system/bin/resize2fs -F '' @ device)"
    and "execute_command env (''/system/bin/resize2fs -F '' @ device) = 0"
    and "asprintf_ok env (''/system/bin/e2fsck -C 0 -fy '' @ device)"
    and "execute_command env (''/system/bin/e2fsck -C 0 -fy '' @ device) = 0
         \<or> execute_command env (''/system/bin/e2fsck -C 0 -fy '' @ device) = 1"
    and "asprintf_ok env (''/system/bin/tune2fs -C 1 '' @ device)"
  shows "\<exists>post. fst (flash_repair env device) =
           [Execute (''/system/bin/resize2fs -F '' @ device) 0,
            Execute (''/system/bin/e2fsck -C 0 -fy '' @ device)
              (execute_command env (''/system/bin/e2fsck -C 0 -fy '' @ device)),
            Execute (''/system/bin/tune2fs -C 1 '' @ device)
              (execute_command env (''/system/bin/tune2fs -C 1 '' @ device))] @ post"
  using assms
  by (auto simp: flash_repair_def flash_resize_def flash_fsck_def flash_tune_def run)

text \<open>
  C5. The value of \<^verbatim>\<open>do_ext_checks\<close> is true exactly when the destination is a named
  partition of the Linux type and the superblock read at offset 1024 of its device node
  carries the ext magic. In a run of the flash handler a maintenance tool is executed only
  for such a partition with such a superblock, and then the resize tool, the first of the
  sequence, is executed as soon as its command line can be allocated; when each command
  line can be allocated, the resize tool exits with 0 and the checker with 0 or 1, the run
  executes resize, check and tune, in this order. When the superblock read does not carry
  the magic, the partition being declared of the Linux type, no tool is executed and the
  handler still replies success, once, and returns.

  The same on the inputs, for every named partition, device node and payload with which
  the handler gets past the write (the node is a block device, the pipeline is opened and
  takes the whole payload, the node can be reopened if it is the disk's): the resize tool,
  its command line allocated, is executed exactly when the partition is of the Linux type
  and the superblock of the node can be opened, sought, read and carries the magic. In that
  case, every tool succeeding, the run is the write, the probe, resize, check, tune and the
  reply of success, and nothing else; with a superblock of another magic the run is the
  write, the probe and the reply of success, and nothing else.
\<close>

theorem flash_repair_iff_linux_and_magic:
  "(snd (flash_probe env device ptn) = Next True \<longleftrightarrow>
      (\<exists>p sb. ptn = Some p \<and> type p = PC_PART_TYPE_LINUX \<and> open_ok env device
         \<and> lseek env device EXT_SUPERBLOCK_OFFSET = EXT_SUPERBLOCK_OFFSET
         \<and> read_superblock env device = Some sb \<and> s_magic sb = EXT3_SUPER_MAGIC))
   \<and> (Execute c r \<in> set (fst (cmd_flash env part_name data)) \<longrightarrow>
        part_name \<noteq> ''disk''
        \<and> (\<exists>p sb. find_part env part_name = Some p \<and> type p = PC_PART_TYPE_LINUX
              \<and> Read_Superblock (Some sb) \<in> set (fst (cmd_flash env part_name data))
              \<and> s_magic sb = EXT3_SUPER_MAGIC))
   \<and> (Read_Superblock (Some sb') \<in> set (fst (cmd_flash env part_name data))
        \<and> s_magic sb' = EXT3_SUPER_MAGIC \<and> find_part_device env part_name = Some node
        \<and> asprintf_ok env (''/system/bin/resize2fs -F '' @ node) \<longrightarrow>
        (\<exists>r'. Execute (''/system/bin/resize2fs -F '' @ node) r'
                 \<in> set (fst (cmd_flash env part_name data))))
   \<and> (Read_Superblock (Some sb') \<in> set (fst (cmd_flash env part_name data))
        \<and> s_magic sb' = EXT3_SUPER_MAGIC \<and> find_part_device env part_name = Some node
        \<and> asprintf_ok env (''/system/bin/resize2fs -F '' @ node)
        \<and> execute_command env (''/system/bin/resize2fs -F '' @ node) = 0
        \<and> asprintf_ok env (''/system/bin/e2fsck -C 0 -fy '' @ node)
        \<and> (execute_command env (''/system/bin/e2fsck -C 0 -fy '' @ node) = 0
             \<or> execute_command env (''/system/bin/e2fsck -C 0 -fy '' @ node) = 1)
        \<and> asprintf_ok env (''/system/bin/tune2fs -C 1 '' @ node) \<longrightarrow>
        (\<exists>pre post. fst (cmd_flash env part_name data) =
           pre @
           [Execute (''/system/bin/resize2fs -F '' @ node) 0,
            Execute (''/system/bin/e2fsck -C 0 -fy '' @ node)
              (execute_command env (''/system/bin/e2fsck -C 0 -fy '' @ node)),
            Execute (''/system/bin/tune2fs -C 1 '' @ node)
              (execute_command env (''/system/bin/tune2fs -C 1 '' @ node))] @ post))
   \<and> (Read_Superblock (Some sb'') \<in> set (fst (cmd_flash env part_name data))
        \<and> s_magic sb'' \<noteq> EXT3_SUPER_MAGIC \<longrightarrow>
        (\<exists>p. find_part env part_name = Some p \<and> type p = PC_PART_TYPE_LINUX)
        \<and> (\<forall>c' r'. Execute c' r' \<notin> set (fst (cmd_flash env part_name data)))
        \<and> replies (fst (cmd_flash env part_name data)) = [OKAY '''']
        \<and> snd (cmd_flash env part_name data) = Returned)
   \<and> (part_name \<noteq> ''disk'' \<and> take 4 part_name \<noteq> ''osip''
        \<and> find_part_device env part_name = Some node
        \<and> is_valid_blkdev env node \<and> gzip_header data = Some gz
        \<and> asprintf_ok env (flash_command gz node) \<and> popen_ok env (flash_command gz node)
        \<and> fwrite env (flash_command gz node) data = length data
        \<and> (node = disk_device env \<longrightarrow> open_ok env node)
        \<and> asprintf_ok env (''/system/bin/resize2fs -F '' @ node) \<longrightarrow>
        ((\<exists>r'. Execute (''/system/bin/resize2fs -F '' @ node) r'
                  \<in> set (fst (cmd_flash env part_name data)))
         \<longleftrightarrow> (\<exists>p sb. find_part env part_name = Some p \<and> type p = PC_PART_TYPE_LINUX
                \<and> open_ok env node
                \<and> lseek env node EXT_SUPERBLOCK_OFFSET = EXT_SUPERBLOCK_OFFSET
                \<and> read_superblock env node = Some sb \<and> s_magic sb = EXT3_SUPER_MAGIC)))
   \<and> (part_name \<noteq> ''disk'' \<and> take 4 part_name \<noteq> ''osip''
        \<and> find_part_device env part_name = Some node
        \<and> is_valid_blkdev env node \<and> gzip_header data = Some gz
        \<and> asprintf_ok env (flash_command gz node) \<and> popen_ok env (flash_command gz node)
        \<and> fwrite env (flash_command gz node) data = length data
        \<and> (node = disk_device env \<longrightarrow> open_ok env node)
        \<and> find_part env part_name = Some lp \<and> type lp = PC_PART_TYPE_LINUX
        \<and> open_ok env node
        \<and> lseek env node EXT_SUPERBLOCK_OFFSET = EXT_SUPERBLOCK_OFFSET
        \<and> read_superblock env node = Some blk \<and> s_magic blk = EXT3_SUPER_MAGIC
        \<and> asprintf_ok env (''/system/bin/resize2fs -F '' @ node)
        \<and> execute_command env (''/system/bin/resize2fs -F '' @ node) = 0
        \<and> asprintf_ok env (''/system/bin/e2fsck -C 0 -fy '' @ node)
        \<and> (execute_command env (''/system/bin/e2fsck -C 0 -fy '' @ node) = 0
             \<or> execute_command env (''/system/bin/e2fsck -C 0 -fy '' @ node) = 1)
        \<and> asprintf_ok env (''/system/bin/tune2fs -C 1 '' @ node)
        \<and> execute_command env (''/system/bin/tune2fs -C 1 '' @ node) = 0 \<longrightarrow>
        cmd_flash env part_name data =
          ([Blkdev_Check node, Popen (flash_command gz node), Fwrite data (length data),
            Pclose, Sync] @
           (if node = disk_device env
            then [Open_Dev node, Reread_Partition_Table, Close_Dev] else []) @
           [Open_Dev node, Seek EXT_SUPERBLOCK_OFFSET, Read_Superblock (Some blk), Close_Dev,
            Execute (''/system/bin/resize2fs -F '' @ node) 0,
            Execute (''/system/bin/e2fsck -C 0 -fy '' @ node)
              (execute_command env (''/system/bin/e2fsck -C 0 -fy '' @ node)),
            Execute (''/system/bin/tune2fs -C 1 '' @ node) 0,
            Reply (OKAY '''')], Returned))
   \<and> (part_name \<noteq> ''disk'' \<and> take 4 part_name \<noteq> ''osip''
        \<and> find_part_device env part_name = Some node
        \<and> is_valid_blkdev env node \<and> gzip_header data = Some gz
        \<and> asprintf_ok env (flash_command gz node) \<and> popen_ok env (flash_command gz node)
        \<and> fwrite env (flash_command gz node) data = length data
        \<and> (node = disk_device env \<longrightarrow> open_ok env node)
        \<and> find_part env part_name = Some lp \<and> type lp = PC_PART_TYPE_LINUX
        \<and> open_ok env node
        \<and> lseek env node EXT_SUPERBLOCK_OFFSET = EXT_SUPERBLOCK_OFFSET
        \<and> read_superblock env node = Some blk \<and> s_magic blk \<noteq> EXT3_SUPER_MAGIC \<longrightarrow>
        cmd_flash env part_name data =
          ([Blkdev_Check node, Popen (flash_command gz node), Fwrite data (length data),
            Pclose, Sync] @
           (if node = disk_device env
            then [Open_Dev node, Reread_Partition_Table, Close_Dev] else []) @
           [Open_Dev node, Seek EXT_SUPERBLOCK_OFFSET, Read_Superblock (Some blk), Close_Dev,
            Reply (OKAY '''')], Returned))"
proof -
  obtain tr ft where run: "cmd_flash env part_name data = (tr, ft)"
    by (cases "cmd_flash env part_name data")
  have only_if: "part_name \<noteq> ''disk''
        \<and> (\<exists>p sb. find_part env part_name = Some p \<and> type p = PC_PART_TYPE_LINUX
              \<and> Read_Superblock (Some sb) \<in> set tr \<and> s_magic sb = EXT3_SUPER_MAGIC)"
    if "Execute c r \<in> set tr"
    using run that
  proof (cases rule: cmd_flash_cases)
    case disk
    from flash_device_execute [OF disk(2) that] show ?thesis by simp
  next
    case (named device)
    from flash_device_execute [OF named(4) that] named(1) show ?thesis by simp
  qed auto
  have "if": "\<exists>r'. Execute (''/system/bin/resize2fs -F '' @ node) r' \<in> set tr"
    if "Read_Superblock (Some sb') \<in> set tr" "s_magic sb' = EXT3_SUPER_MAGIC"
       "find_part_device env part_name = Some node"
       "asprintf_ok env (''/system/bin/resize2fs -F '' @ node)"
    using run that
  proof (cases rule: cmd_flash_cases)
    case disk
    from flash_device_read [OF disk(2) that(1)] show ?thesis by simp
  next
    case (named device)
    with that(3) have fd: "flash_device env node (find_part env part_name) data = (tr, ft)"
      by simp
    from flash_device_magic [OF fd that(1,2,4)] show ?thesis .
  qed auto
  have full: "\<exists>pre post. tr =
           pre @
           [Execute (''/system/bin/resize2fs -F '' @ node) 0,
            Execute (''/system/bin/e2fsck -C 0 -fy '' @ node)
              (execute_command env (''/system/bin/e2fsck -C 0 -fy '' @ node)),
            Execute (''/system/bin/tune2fs -C 1 '' @ node)
              (execute_command env (''/system/bin/tune2fs -C 1 '' @ node))] @ post"
    if "Read_Superblock (Some sb') \<in> set tr" "s_magic sb' = EXT3_SUPER_MAGIC"
       "find_part_device env part_name = Some node"
       "asprintf_ok env (''/system/bin/resize2fs -F '' @ node)"
       "execute_command env (''/system/bin/resize2fs -F '' @ node) = 0"
       "asprintf_ok env (''/system/bin/e2fsck -C 0 -fy '' @ node)"
       "execute_command env (''/system/bin/e2fsck -C 0 -fy '' @ node) = 0
        \<or> execute_command env (''/system/bin/e2fsck -C 0 -fy '' @ node) = 1"
       "asprintf_ok env (''/system/bin/tune2fs -C 1 '' @ node)"
  proof -
    from "if" [OF that(1-4)] obtain r' where
      ex: "Execute (''/system/bin/resize2fs -F '' @ node) r' \<in> set tr"
      by blast
    from run show ?thesis
    proof (cases rule: cmd_flash_cases)
      case disk
      from flash_device_read [OF disk(2) that(1)] show ?thesis by simp
    next
      case osip
      with that(1) show ?thesis by auto
    next
      case unknown
      with that(1) show ?thesis by simp
    next
      case (named dev)
      with that(3) have fd: "flash_device env node (find_part env part_name) data = (tr, ft)"
        by simp
      from flash_device_repair [OF fd ex] obtain pre tr' r'' where
        rep: "flash_repair env node = (tr', r'')"
        and tr: "r'' = Next () \<and> tr = pre @ tr' @ [Reply (OKAY '''')] \<and> ft = Returned
                 \<or> r'' = Done ft \<and> tr = pre @ tr'"
        by blast
      let ?tools = "[Execute (''/system/bin/resize2fs -F '' @ node) 0,
              Execute (''/system/bin/e2fsck -C 0 -fy '' @ node)
                (execute_command env (''/system/bin/e2fsck -C 0 -fy '' @ node)),
              Execute (''/system/bin/tune2fs -C 1 '' @ node)
                (execute_command env (''/system/bin/tune2fs -C 1 '' @ node))]"
      from flash_repair_sequence [OF that(4-8)] obtain post where
        "fst (flash_repair env node) = ?tools @ post"
        by blast
      with rep have tr': "tr' = ?tools @ post" by simp
      from tr show ?thesis
      proof
        assume "r'' = Next () \<and> tr = pre @ tr' @ [Reply (OKAY '''')] \<and> ft = Returned"
        then have "tr = pre @ ?tools @ (post @ [Reply (OKAY '''')])"
          by (simp only: tr' append_assoc)
        then show ?thesis by (rule_tac x = pre in exI) (rule exI)
      next
        assume "r'' = Done ft \<and> tr = pre @ tr'"
        then have "tr = pre @ ?tools @ post"
          by (simp only: tr')
        then show ?thesis by (rule_tac x = pre in exI) (rule exI)
      qed
    qed
  qed
  have skip: "(\<exists>p. find_part env part_name = Some p \<and> type p = PC_PART_TYPE_LINUX)
        \<and> (\<forall>c' r'. Execute c' r' \<notin> set tr) \<and> replies tr = [OKAY ''''] \<and> ft = Returned"
    if "Read_Superblock (Some sb'') \<in> set tr" "s_magic sb'' \<noteq> EXT3_SUPER_MAGIC"
    using run that
  proof (cases rule: cmd_flash_cases)
    case disk
    with that show ?thesis by (auto dest: flash_device_no_magic)
  next
    case (named device)
    from flash_device_no_magic [OF named(4) that] show ?thesis by simp
  qed auto
  from run have trft: "fst (cmd_flash env part_name data) = tr"
    "snd (cmd_flash env part_name data) = ft"
    by simp_all
  note c1 = flash_probe_True_iff [of env device ptn]
  from only_if have c2: "Execute c r \<in> set tr \<longrightarrow>
        part_name \<noteq> ''disk''
        \<and> (\<exists>p sb. find_part env part_name = Some p \<and> type p = PC_PART_TYPE_LINUX
              \<and> Read_Superblock (Some sb) \<in> set tr \<and> s_magic sb = EXT3_SUPER_MAGIC)"
    by (rule impI)
  from "if" have c3: "Read_Superblock (Some sb') \<in> set tr
        \<and> s_magic sb' = EXT3_SUPER_MAGIC \<and> find_part_device env part_name = Some node
        \<and> asprintf_ok env (''/system/bin/resize2fs -F '' @ node) \<longrightarrow>
        (\<exists>r'. Execute (''/system/bin/resize2fs -F '' @ node) r' \<in> set tr)"
    by (intro impI) (elim conjE)
  from full have c4: "Read_Superblock (Some sb') \<in> set tr
        \<and> s_magic sb' = EXT3_SUPER_MAGIC \<and> find_part_device env part_name = Some node
        \<and> asprintf_ok env (''/system/bin/resize2fs -F '' @ node)
        \<and> execute_command env (''/system/bin/resize2fs -F '' @ node) = 0
        \<and> asprintf_ok env (''/system/bin/e2fsck -C 0 -fy '' @ node)
        \<and> (execute_command env (''/system/bin/e2fsck -C 0 -fy '' @ node) = 0
             \<or> execute_command env (''/system/bin/e2fsck -C 0 -fy '' @ node) = 1)
        \<and> asprintf_ok env (''/system/bin/tune2fs -C 1 '' @ node) \<longrightarrow>
        (\<exists>pre post. tr =
           pre @
           [Execute (''/system/bin/resize2fs -F '' @ node) 0,
            Execute (''/system/bin/e2fsck -C 0 -fy '' @ node)
              (execute_command env (''/system/bin/e2fsck -C 0 -fy '' @ node)),
            Execute (''/system/bin/tune2fs -C 1 '' @ node)
              (execute_command env (''/system/bin/tune2fs -C 1 '' @ node))] @ post)"
    by (intro impI) (elim conjE)
  from skip have c5: "Read_Superblock (Some sb'') \<in> set tr
        \<and> s_magic sb'' \<noteq> EXT3_SUPER_MAGIC \<longrightarrow>
        (\<exists>p. find_part env part_name = Some p \<and> type p = PC_PART_TYPE_LINUX)
        \<and> (\<forall>c' r'. Execute c' r' \<notin> set tr)
        \<and> replies tr = [OKAY '''']
        \<and> ft = Returned"
    by (intro impI) (elim conjE)
  have c6: "part_name \<noteq> ''disk'' \<and> take 4 part_name \<noteq> ''osip''
        \<and> find_part_device env part_name = Some node
        \<and> is_valid_blkdev env node \<and> gzip_header data = Some gz
        \<and> asprintf_ok env (flash_command gz node) \<and> popen_ok env (flash_command gz node)
        \<and> fwrite env (flash_command gz node) data = length data
        \<and> (node = disk_device env \<longrightarrow> open_ok env node)
        \<and> asprintf_ok env (''/system/bin/resize2fs -F '' @ node) \<longrightarrow>
        ((\<exists>r'. Execute (''/system/bin/resize2fs -F '' @ node) r' \<in> set tr)
         \<longleftrightarrow> (\<exists>p sb. find_part env part_name = Some p \<and> type p = PC_PART_TYPE_LINUX
                \<and> open_ok env node
                \<and> lseek env node EXT_SUPERBLOCK_OFFSET = EXT_SUPERBLOCK_OFFSET
                \<and> read_superblock env node = Some sb \<and> s_magic sb = EXT3_SUPER_MAGIC))"
  proof (intro impI, elim conjE)
    assume h: "part_name \<noteq> ''disk''" "take 4 part_name \<noteq> ''osip''"
      "find_part_device env part_name = Some node"
      "is_valid_blkdev env node" "gzip_header data = Some gz"
      "asprintf_ok env (flash_command gz node)" "popen_ok env (flash_command gz node)"
      "fwrite env (flash_command gz node) data = length data"
      "node = disk_device env \<longrightarrow> open_ok env node"
      "asprintf_ok env (''/system/bin/resize2fs -F '' @ node)"
    from cmd_flash_named [OF h(1-3)] run
    have fd: "flash_device env node (find_part env part_name) data = (tr, ft)" by simp
    show "(\<exists>r'. Execute (''/system/bin/resize2fs -F '' @ node) r' \<in> set tr)
         \<longleftrightarrow> (\<exists>p sb. find_part env part_name = Some p \<and> type p = PC_PART_TYPE_LINUX
                \<and> open_ok env node
                \<and> lseek env node EXT_SUPERBLOCK_OFFSET = EXT_SUPERBLOCK_OFFSET
                \<and> read_superblock env node = Some sb \<and> s_magic sb = EXT3_SUPER_MAGIC)"
    proof
      assume "\<exists>r'. Execute (''/system/bin/resize2fs -F '' @ node) r' \<in> set tr"
      then obtain r' where "Execute (''/system/bin/resize2fs -F '' @ node) r' \<in> set tr" ..
      from flash_device_execute [OF fd this] obtain p sb where
        p: "find_part env part_name = Some p" "type p = PC_PART_TYPE_LINUX"
        and sb: "Read_Superblock (Some sb) \<in> set tr" "s_magic sb = EXT3_SUPER_MAGIC"
        by blast
      from flash_device_read_on_inputs [OF fd sb(1)] p sb(2)
      show "\<exists>p sb. find_part env part_name = Some p \<and> type p = PC_PART_TYPE_LINUX
                \<and> open_ok env node
                \<and> lseek env node EXT_SUPERBLOCK_OFFSET = EXT_SUPERBLOCK_OFFSET
                \<and> read_superblock env node = Some sb \<and> s_magic sb = EXT3_SUPER_MAGIC"
        by blast
    next
      assume "\<exists>p sb. find_part env part_name = Some p \<and> type p = PC_PART_TYPE_LINUX
                \<and> open_ok env node
                \<and> lseek env node EXT_SUPERBLOCK_OFFSET = EXT_SUPERBLOCK_OFFSET
                \<and> read_superblock env node = Some sb \<and> s_magic sb = EXT3_SUPER_MAGIC"
      then obtain p sb where p: "find_part env part_name = Some p"
        "type p = PC_PART_TYPE_LINUX" "open_ok env node"
        "lseek env node EXT_SUPERBLOCK_OFFSET = EXT_SUPERBLOCK_OFFSET"
        "read_superblock env node = Some sb" and magic: "s_magic sb = EXT3_SUPER_MAGIC"
        by blast
      from flash_device_probe_on_inputs [OF h(4-9) p] fd
      have "Read_Superblock (Some sb) \<in> set tr" by simp
      from flash_device_magic [OF fd this magic h(10)]
      show "\<exists>r'. Execute (''/system/bin/resize2fs -F '' @ node) r' \<in> set tr" .
    qed
  qed
  have c7: "part_name \<noteq> ''disk'' \<and> take 4 part_name \<noteq> ''osip''
        \<and> find_part_device env part_name = Some node
        \<and> is_valid_blkdev env node \<and> gzip_header data = Some gz
        \<and> asprintf_ok env (flash_command gz node) \<and> popen_ok env (flash_command gz node)
        \<and> fwrite env (flash_command gz node) data = length data
        \<and> (node = disk_device env \<longrightarrow> open_ok env node)
        \<and> find_part env part_name = Some lp \<and> type lp = PC_PART_TYPE_LINUX
        \<and> open_ok env node
        \<and> lseek env node EXT_SUPERBLOCK_OFFSET = EXT_SUPERBLOCK_OFFSET
        \<and> read_superblock env node = Some blk \<and> s_magic blk = EXT3_SUPER_MAGIC
        \<and> asprintf_ok env (''/system/bin/resize2fs -F '' @ node)
        \<and> execute_command env (''/system/bin/resize2fs -F '' @ node) = 0
        \<and> asprintf_ok env (''/system/bin/e2fsck -C 0 -fy '' @ node)
        \<and> (execute_command env (''/system/bin/e2fsck -C 0 -fy '' @ node) = 0
             \<or> execute_command env (''/system/bin/e2fsck -C 0 -fy '' @ node) = 1)
        \<and> asprintf_ok env (''/system/bin/tune2fs -C 1 '' @ node)
        \<and> execute_command env (''/system/bin/tune2fs -C 1 '' @ node) = 0 \<longrightarrow>
        cmd_flash env part_name data =
          ([Blkdev_Check node, Popen (flash_command gz node), Fwrite data (length data),
            Pclose, Sync] @
           (if node = disk_device env
            then [Open_Dev node, Reread_Partition_Table, Close_Dev] else []) @
           [Open_Dev node, Seek EXT_SUPERBLOCK_OFFSET, Read_Superblock (Some blk), Close_Dev,
            Execute (''/system/bin/resize2fs -F '' @ node) 0,
            Execute (''/system/bin/e2fsck -C 0 -fy '' @ node)
              (execute_command env (''/system/bin/e2fsck -C 0 -fy '' @ node)),
            Execute (''/system/bin/tune2fs -C 1 '' @ node) 0,
            Reply (OKAY '''')], Returned)"
  proof (intro impI, elim conjE)
    assume h: "part_name \<noteq> ''disk''" "take 4 part_name \<noteq> ''osip''"
      "find_part_device env part_name = Some node"
      and k: "is_valid_blkdev env node" "gzip_header data = Some gz"
      "asprintf_ok env (flash_command gz node)" "popen_ok env (flash_command gz node)"
      "fwrite env (flash_command gz node) data = length data"
      "node = disk_device env \<longrightarrow> open_ok env node"
      "find_part env part_name = Some lp" "type lp = PC_PART_TYPE_LINUX"
      "open_ok env node"
      "lseek env node EXT_SUPERBLOCK_OFFSET = EXT_SUPERBLOCK_OFFSET"
      "read_superblock env node = Some blk" "s_magic blk = EXT3_SUPER_MAGIC"
      "asprintf_ok env (''/system/bin/resize2fs -F '' @ node)"
      "execute_command env (''/system/bin/resize2fs -F '' @ node) = 0"
      "asprintf_ok env (''/system/bin/e2fsck -C 0 -fy '' @ node)"
      "execute_command env (''/system/bin/e2fsck -C 0 -fy '' @ node) = 0
       \<or> execute_command env (''/system/bin/e2fsck -C 0 -fy '' @ node) = 1"
      "asprintf_ok env (''/system/bin/tune2fs -C 1 '' @ node)"
      "execute_command env (''/system/bin/tune2fs -C 1 '' @ node) = 0"
    show "cmd_flash env part_name data =
          ([Blkdev_Check node, Popen (flash_command gz node), Fwrite data (length data),
            Pclose, Sync] @
           (if node = disk_device env
            then [Open_Dev node, Reread_Partition_Table, Close_Dev] else []) @
           [Open_Dev node, Seek EXT_SUPERBLOCK_OFFSET, Read_Superblock (Some blk), Close_Dev,
            Execute (''/system/bin/resize2fs -F '' @ node) 0,
            Execute (''/system/bin/e2fsck -C 0 -fy '' @ node)
              (execute_command env (''/system/bin/e2fsck -C 0 -fy '' @ node)),
            Execute (''/system/bin/tune2fs -C 1 '' @ node) 0,
            Reply (OKAY '''')], Returned)"
      unfolding cmd_flash_named [OF h] by (rule flash_device_full_run [OF k])
  qed
  have c8: "part_name \<noteq> ''disk'' \<and> take 4 part_name \<noteq> ''osip''
        \<and> find_part_device env part_name = Some node
        \<and> is_valid_blkdev env node \<and> gzip_header data = Some gz
        \<and> asprintf_ok env (flash_command gz node) \<and> popen_ok env (flash_command gz node)
        \<and> fwrite env (flash_command gz node) data = length data
        \<and> (node = disk_device env \<longrightarrow> open_ok env node)
        \<and> find_part env part_name = Some lp \<and> type lp = PC_PART_TYPE_LINUX
        \<and> open_ok env node
        \<and> lseek env node EXT_SUPERBLOCK_OFFSET = EXT_SUPERBLOCK_OFFSET
        \<and> read_superblock env node = Some blk \<and> s_magic blk \<noteq> EXT3_SUPER_MAGIC \<longrightarrow>
        cmd_flash env part_name data =
          ([Blkdev_Check node, Popen (flash_command gz node), Fwrite data (length data),
            Pclose, Sync] @
           (if node = disk_device env
            then [Open_Dev node, Reread_Partition_Table, Close_Dev] else []) @
           [Open_Dev node, Seek EXT_SUPERBLOCK_OFFSET, Read_Superblock (Some blk), Close_Dev,
            Reply (OKAY '''')], Returned)"
  proof (intro impI, elim conjE)
    assume h: "part_name \<noteq> ''disk''" "take 4 part_name \<noteq> ''osip''"
      "find_part_device env part_name = Some node"
      and k: "is_valid_blkdev env node" "gzip_header data = Some gz"
      "asprintf_ok env (flash_command gz node)" "popen_ok env (flash_command gz node)"
      "fwrite env (flash_command gz node) data = length data"
      "node = disk_device env \<longrightarrow> open_ok env node"
      "find_part env part_name = Some lp" "type lp = PC_PART_TYPE_LINUX"
      "open_ok env node"
      "lseek env node EXT_SUPERBLOCK_OFFSET = EXT_SUPERBLOCK_OFFSET"
      "read_superblock env node = Some blk" "s_magic blk \<noteq> EXT3_SUPER_MAGIC"
    show "cmd_flash env part_name data =
          ([Blkdev_Check node, Popen (flash_command gz node), Fwrite data (length data),
            Pclose, Sync] @
           (if node = disk_device env
            then [Open_Dev node, Reread_Partition_Table, Close_Dev] else []) @
           [Open_Dev node, Seek EXT_SUPERBLOCK_OFFSET, Read_Superblock (Some blk), Close_Dev,
            Reply (OKAY '''')], Returned)"
      unfolding cmd_flash_named [OF h] by (rule flash_device_skip_run [OF k])
  qed
  show ?thesis
    unfolding trft by (intro conjI c1 c2 c3 c4 c5 c6 c7 c8)
qed


theorem flash_repair_iff_linux_and_magic_witness:
  "snd (flash_probe board ''/dev/block/mmcblk0p2'' (find_part board ''system'')) = Next True
   \<and> (\<exists>p sb. find_part board ''system'' = Some p \<and> type p = PC_PART_TYPE_LINUX
         \<and> open_ok board ''/dev/block/mmcblk0p2''
         \<and> lseek board ''/dev/block/mmcblk0p2'' EXT_SUPERBLOCK_OFFSET = EXT_SUPERBLOCK_OFFSET
         \<and> read_superblock board ''/dev/block/mmcblk0p2'' = Some sb
         \<and> s_magic sb = EXT3_SUPER_MAGIC)
   \<and> Execute ''/system/bin/resize2fs -F /dev/block/mmcblk0p2'' 0
        \<in> set (fst (cmd_flash board ''system'' boot_payload))
   \<and> Read_Superblock (Some \<lparr>s_magic = 0xEF53\<rparr>)
        \<in> set (fst (cmd_flash board ''system'' boot_payload))
   \<and> s_magic \<lparr>s_magic = 0xEF53\<rparr> = EXT3_SUPER_MAGIC
   \<and> ''system'' \<noteq> ''disk'' \<and> take 4 ''system'' \<noteq> ''osip''
   \<and> find_part_device board ''system'' = Some ''/dev/block/mmcblk0p2''
   \<and> is_valid_blkdev board ''/dev/block/mmcblk0p2''
   \<and> gzip_header boot_payload = Some False
   \<and> asprintf_ok board (flash_command False ''/dev/block/mmcblk0p2'')
   \<and> popen_ok board (flash_command False ''/dev/block/mmcblk0p2'')
   \<and> fwrite board (flash_command False ''/dev/block/mmcblk0p2'') boot_payload
        = length boot_payload
   \<and> ''/dev/block/mmcblk0p2'' \<noteq> disk_device board
   \<and> find_part board ''system'' = Some \<lparr>name = ''system'', type = PC_PART_TYPE_LINUX\<rparr>
   \<and> asprintf_ok board (''/system/bin/resize2fs -F '' @ ''/dev/block/mmcblk0p2'')
   \<and> execute_command board (''/system/bin/resize2fs -F '' @ ''/dev/block/mmcblk0p2'') = 0
   \<and> asprintf_ok board (''/system/bin/e2fsck -C 0 -fy '' @ ''/dev/block/mmcblk0p2'')
   \<and> execute_command board (''/system/bin/e2fsck -C 0 -fy '' @ ''/dev/block/mmcblk0p2'') = 0
   \<and> asprintf_ok board (''/system/bin/tune2fs -C 1 '' @ ''/dev/block/mmcblk0p2'')
   \<and> execute_command board (''/system/bin/tune2fs -C 1 '' @ ''/dev/block/mmcblk0p2'') = 0
   \<and> (\<exists>r'. Execute (''/system/bin/resize2fs -F '' @ ''/dev/block/mmcblk0p2'') r'
          \<in> set (fst (cmd_flash board ''system'' boot_payload)))
   \<and> (\<exists>pre post. fst (cmd_flash board ''system'' boot_payload) =
           pre @
           [Execute (''/system/bin/resize2fs -F '' @ ''/dev/block/mmcblk0p2'') 0,
            Execute (''/system/bin/e2fsck -C 0 -fy '' @ ''/dev/block/mmcblk0p2'')
              (execute_command board
                 (''/system/bin/e2fsck -C 0 -fy '' @ ''/dev/block/mmcblk0p2'')),
            Execute (''/system/bin/tune2fs -C 1 '' @ ''/dev/block/mmcblk0p2'')
              (execute_command board
                 (''/system/bin/tune2fs -C 1 '' @ ''/dev/block/mmcblk0p2''))] @ post)
   \<and> cmd_flash board ''system'' boot_payload =
        ([Blkdev_Check ''/dev/block/mmcblk0p2'',
          Popen ''/system/bin/dd of=/dev/block/mmcblk0p2 bs=8192'',
          Fwrite boot_payload 10, Pclose, Sync,
          Open_Dev ''/dev/block/mmcblk0p2'', Seek 1024,
          Read_Superblock (Some \<lparr>s_magic = 0xEF53\<rparr>), Close_Dev,
          Execute ''/system/bin/resize2fs -F /dev/block/mmcblk0p2'' 0,
          Execute ''/system/bin/e2fsck -C 0 -fy /dev/block/mmcblk0p2'' 0,
          Execute ''/system/bin/tune2fs -C 1 /dev/block/mmcblk0p2'' 0,
          Reply (OKAY '''')], Returned)
   \<and> Read_Superblock (Some \<lparr>s_magic = 0\<rparr>)
        \<in> set (fst (cmd_flash board_unformatted ''system'' boot_payload))
   \<and> s_magic \<lparr>s_magic = 0\<rparr> \<noteq> EXT3_SUPER_MAGIC
   \<and> read_superblock board_unformatted ''/dev/block/mmcblk0p2'' = Some \<lparr>s_magic = 0\<rparr>
   \<and> (\<exists>p. find_part board_unformatted ''system'' = Some p \<and> type p = PC_PART_TYPE_LINUX)
   \<and> (\<forall>c r. Execute c r \<notin> set (fst (cmd_flash board_unformatted ''system'' boot_payload)))
   \<and> replies (fst (cmd_flash board_unformatted ''system'' boot_payload)) = [OKAY '''']
   \<and> snd (cmd_flash board_unformatted ''system'' boot_payload) = Returned
   \<and> cmd_flash board_unformatted ''system'' boot_payload =
        ([Blkdev_Check ''/dev/block/mmcblk0p2'',
          Popen ''/system/bin/dd of=/dev/block/mmcblk0p2 bs=8192'',
          Fwrite boot_payload 10, Pclose, Sync,
          Open_Dev ''/dev/block/mmcblk0p2'', Seek 1024,
          Read_Superblock (Some \<lparr>s_magic = 0\<rparr>), Close_Dev,
          Reply (OKAY '''')], Returned)"
proof -
  let ?node = "''/dev/block/mmcblk0p2''"
  let ?lp = "\<lparr>name = ''system'', type = PC_PART_TYPE_LINUX\<rparr>"
  note t = flash_repair_iff_linux_and_magic
    [where env = board and device = ?node and ptn = "find_part board ''system''"
       and c = "''/system/bin/resize2fs -F /dev/block/mmcblk0p2''" and r = 0
       and part_name = "''system''" and data = boot_payload
       and sb' = "\<lparr>s_magic = 0xEF53\<rparr>" and node = ?node and gz = False
       and lp = ?lp and blk = "\<lparr>s_magic = 0xEF53\<rparr>"]
  note u = flash_repair_iff_linux_and_magic
    [where env = board_unformatted and part_name = "''system''" and data = boot_payload
       and sb'' = "\<lparr>s_magic = 0\<rparr>" and node = ?node and gz = False
       and lp = ?lp and blk = "\<lparr>s_magic = 0\<rparr>"]
  note t1 = t [THEN conjunct1]
  note t4 = t [THEN conjunct2, THEN conjunct2, THEN conjunct2, THEN conjunct1]
  note t6 = t [THEN conjunct2, THEN conjunct2, THEN conjunct2, THEN conjunct2,
               THEN conjunct2, THEN conjunct1]
  note t7 = t [THEN conjunct2, THEN conjunct2, THEN conjunct2, THEN conjunct2,
               THEN conjunct2, THEN conjunct2, THEN conjunct1]
  note u5 = u [THEN conjunct2, THEN conjunct2, THEN conjunct2, THEN conjunct2,
               THEN conjunct1]
  note u8 = u [THEN conjunct2, THEN conjunct2, THEN conjunct2, THEN conjunct2,
               THEN conjunct2, THEN conjunct2, THEN conjunct2]
  have h1: "snd (flash_probe board ?node (find_part board ''system'')) = Next True"
    by (simp add: flash_probe_def board_defs)
  have h2: "Execute ''/system/bin/resize2fs -F /dev/block/mmcblk0p2'' 0
        \<in> set (fst (cmd_flash board ''system'' boot_payload))"
    by (simp add: cmd_flash_def flash_device_def flash_stages run board_defs)
  have h3: "Read_Superblock (Some \<lparr>s_magic = 0xEF53\<rparr>)
        \<in> set (fst (cmd_flash board ''system'' boot_payload))"
    by (simp add: cmd_flash_def flash_device_def flash_stages run board_defs)
  have named: "''system'' \<noteq> ''disk''" "take 4 ''system'' \<noteq> ''osip''"
    "find_part_device board ''system'' = Some ?node"
    "find_part_device board_unformatted ''system'' = Some ?node"
    by (simp_all add: board_defs)
  have written: "is_valid_blkdev board ?node" "gzip_header boot_payload = Some False"
    "asprintf_ok board (flash_command False ?node)"
    "popen_ok board (flash_command False ?node)"
    "fwrite board (flash_command False ?node) boot_payload = length boot_payload"
    "?node \<noteq> disk_device board"
    by (simp_all add: board_defs)
  have written': "is_valid_blkdev board_unformatted ?node"
    "asprintf_ok board_unformatted (flash_command False ?node)"
    "popen_ok board_unformatted (flash_command False ?node)"
    "fwrite board_unformatted (flash_command False ?node) boot_payload = length boot_payload"
    "?node \<noteq> disk_device board_unformatted"
    by (simp_all add: board_defs)
  have probe: "find_part board ''system'' = Some ?lp" "type ?lp = PC_PART_TYPE_LINUX"
    "open_ok board ?node"
    "lseek board ?node EXT_SUPERBLOCK_OFFSET = EXT_SUPERBLOCK_OFFSET"
    "read_superblock board ?node = Some \<lparr>s_magic = 0xEF53\<rparr>"
    "s_magic \<lparr>s_magic = 0xEF53\<rparr> = EXT3_SUPER_MAGIC"
    by (simp_all add: board_defs)
  have probe': "find_part board_unformatted ''system'' = Some ?lp"
    "open_ok board_unformatted ?node"
    "lseek board_unformatted ?node EXT_SUPERBLOCK_OFFSET = EXT_SUPERBLOCK_OFFSET"
    "read_superblock board_unformatted ?node = Some \<lparr>s_magic = 0\<rparr>"
    "s_magic \<lparr>s_magic = 0\<rparr> \<noteq> EXT3_SUPER_MAGIC"
    by (simp_all add: board_defs)
  have tools: "asprintf_ok board (''/system/bin/resize2fs -F '' @ ?node)"
    "execute_command board (''/system/bin/resize2fs -F '' @ ?node) = 0"
    "asprintf_ok board (''/system/bin/e2fsck -C 0 -fy '' @ ?node)"
    "execute_command board (''/system/bin/e2fsck -C 0 -fy '' @ ?node) = 0"
    "asprintf_ok board (''/system/bin/tune2fs -C 1 '' @ ?node)"
    "execute_command board (''/system/bin/tune2fs -C 1 '' @ ?node) = 0"
    by (simp_all add: board_def)
  have h4: "Read_Superblock (Some \<lparr>s_magic = 0\<rparr>)
        \<in> set (fst (cmd_flash board_unformatted ''system'' boot_payload))"
    by (simp add: cmd_flash_def flash_device_def flash_stages run board_defs)
  from t1 h1 have r1: "\<exists>p sb. find_part board ''system'' = Some p
         \<and> type p = PC_PART_TYPE_LINUX \<and> open_ok board ?node
         \<and> lseek board ?node EXT_SUPERBLOCK_OFFSET = EXT_SUPERBLOCK_OFFSET
         \<and> read_superblock board ?node = Some sb \<and> s_magic sb = EXT3_SUPER_MAGIC"
    by (rule iffD1)
  from t4 h3 probe(6) named(3) tools
  have r4: "\<exists>pre post. fst (cmd_flash board ''system'' boot_payload) =
           pre @
           [Execute (''/system/bin/resize2fs -F '' @ ?node) 0,
            Execute (''/system/bin/e2fsck -C 0 -fy '' @ ?node)
              (execute_command board (''/system/bin/e2fsck -C 0 -fy '' @ ?node)),
            Execute (''/system/bin/tune2fs -C 1 '' @ ?node)
              (execute_command board (''/system/bin/tune2fs -C 1 '' @ ?node))] @ post"
    by blast
  from t6 named(1-3) written tools(1) r1
  have r6: "\<exists>r'. Execute (''/system/bin/resize2fs -F '' @ ?node) r'
          \<in> set (fst (cmd_flash board ''system'' boot_payload))"
    by blast
  from t7 named(1-3) written probe tools
  have "cmd_flash board ''system'' boot_payload =
          ([Blkdev_Check ?node, Popen (flash_command False ?node),
            Fwrite boot_payload (length boot_payload), Pclose, Sync] @
           (if ?node = disk_device board
            then [Open_Dev ?node, Reread_Partition_Table, Close_Dev] else []) @
           [Open_Dev ?node, Seek EXT_SUPERBLOCK_OFFSET,
            Read_Superblock (Some \<lparr>s_magic = 0xEF53\<rparr>), Close_Dev,
            Execute (''/system/bin/resize2fs -F '' @ ?node) 0,
            Execute (''/system/bin/e2fsck -C 0 -fy '' @ ?node)
              (execute_command board (''/system/bin/e2fsck -C 0 -fy '' @ ?node)),
            Execute (''/system/bin/tune2fs -C 1 '' @ ?node) 0,
            Reply (OKAY '''')], Returned)"
    by blast
  with written(6) tools(4)
  have r7: "cmd_flash board ''system'' boot_payload =
        ([Blkdev_Check ''/dev/block/mmcblk0p2'',
          Popen ''/system/bin/dd of=/dev/block/mmcblk0p2 bs=8192'',
          Fwrite boot_payload 10, Pclose, Sync,
          Open_Dev ''/dev/block/mmcblk0p2'', Seek 1024,
          Read_Superblock (Some \<lparr>s_magic = 0xEF53\<rparr>), Close_Dev,
          Execute ''/system/bin/resize2fs -F /dev/block/mmcblk0p2'' 0,
          Execute ''/system/bin/e2fsck -C 0 -fy /dev/block/mmcblk0p2'' 0,
          Execute ''/system/bin/tune2fs -C 1 /dev/block/mmcblk0p2'' 0,
          Reply (OKAY '''')], Returned)"
    by (simp add: flash_command_def EXT_SUPERBLOCK_OFFSET_def boot_payload_def)
  from u5 h4 probe'(5)
  have r5: "(\<exists>p. find_part board_unformatted ''system'' = Some p
               \<and> type p = PC_PART_TYPE_LINUX)
     \<and> (\<forall>c r. Execute c r \<notin> set (fst (cmd_flash board_unformatted ''system'' boot_payload)))
     \<and> replies (fst (cmd_flash board_unformatted ''system'' boot_payload)) = [OKAY '''']
     \<and> snd (cmd_flash board_unformatted ''system'' boot_payload) = Returned"
    by blast
  from u8 named(1,2,4) written(2) written' probe' probe(2)
  have "cmd_flash board_unformatted ''system'' boot_payload =
          ([Blkdev_Check ?node, Popen (flash_command False ?node),
            Fwrite boot_payload (length boot_payload), Pclose, Sync] @
           (if ?node = disk_device board_unformatted
            then [Open_Dev ?node, Reread_Partition_Table, Close_Dev] else []) @
           [Open_Dev ?node, Seek EXT_SUPERBLOCK_OFFSET,
            Read_Superblock (Some \<lparr>s_magic = 0\<rparr>), Close_Dev,
            Reply (OKAY '''')], Returned)"
    by blast
  with written'(4,5)
  have r8: "cmd_flash board_unformatted ''system'' boot_payload =
        ([Blkdev_Check ''/dev/block/mmcblk0p2'',
          Popen ''/system/bin/dd of=/dev/block/mmcblk0p2 bs=8192'',
          Fwrite boot_payload 10, Pclose, Sync,
          Open_Dev ''/dev/block/mmcblk0p2'', Seek 1024,
          Read_Superblock (Some \<lparr>s_magic = 0\<rparr>), Close_Dev,
          Reply (OKAY '''')], Returned)"
    by (simp add: flash_command_def EXT_SUPERBLOCK_OFFSET_def boot_payload_def)
  show ?thesis
    by (intro conjI r1 h1 h2 h3 probe named(1-3) written tools r6 r4 r7 h4 probe'(4,5)
        r5 [THEN conjunct1] r5 [THEN conjunct2, THEN conjunct1]
        r5 [THEN conjunct2, THEN conjunct2, THEN conjunct1]
        r5 [THEN conjunct2, THEN conjunct2, THEN conjunct2] r8)
qed




subsection \<open>Failures and the life of the process\<close>


























subsection \<open>The countdown\<close>

declare countdown_loop.simps [simp del]

lemma countdown_loop_no_key:
  "0 \<le> s \<Longrightarrow> autoboot_enabled g \<noteq> 0 \<Longrightarrow> (\<forall>j. i \<le> j \<and> int j < int i + s \<longrightarrow> \<not> key j) \<Longrightarrow>
     countdown_loop key i s g = Some (i + nat s, g)"
proof (induction "nat s" arbitrary: s i)
  case 0
  then show ?case by (subst countdown_loop.simps) simp
next
  case (Suc m)
  from Suc.hyps(2) Suc.prems(1) have pos: "0 < s" and m: "m = nat (s - 1)" by simp_all
  from Suc.prems(3) pos have nk: "\<not> key i" by simp
  have "countdown_loop key (Suc i) (s - 1) g = Some (Suc i + nat (s - 1), g)"
  proof (rule Suc.hyps(1) [OF m])
    show "0 \<le> s - 1" using pos by simp
    show "autoboot_enabled g \<noteq> 0" by (rule Suc.prems(2))
    show "\<forall>j. Suc i \<le> j \<and> int j < int (Suc i) + (s - 1) \<longrightarrow> \<not> key j"
      using Suc.prems(3) by simp
  qed
  moreover have "Suc i + nat (s - 1) = i + nat s" using pos by simp
  ultimately show ?case
    using pos nk Suc.prems(2) by (subst countdown_loop.simps) (simp add: INT_MIN_def)
qed

lemma countdown_loop_key:
  "autoboot_enabled g \<noteq> 0 \<Longrightarrow> i \<le> k \<Longrightarrow> int k < int i + s \<Longrightarrow> key k \<Longrightarrow>
     \<exists>n. i < n \<and> n \<le> k + 1 \<and> countdown_loop key i s g = Some (n, g\<lparr>autoboot_enabled := 0\<rparr>)"
proof (induction "k - i" arbitrary: i s)
  case 0
  then have ik: "i = k" and pos: "0 < s" by simp_all
  have stop: "countdown_loop key (Suc i) (s - 1) (g\<lparr>autoboot_enabled := 0\<rparr>)
                = Some (Suc i, g\<lparr>autoboot_enabled := 0\<rparr>)"
    by (subst countdown_loop.simps) simp
  have "countdown_loop key i s g = Some (Suc i, g\<lparr>autoboot_enabled := 0\<rparr>)"
    using pos "0.prems"(1,4) ik stop
    by (subst countdown_loop.simps) (simp add: INT_MIN_def disable_autoboot_def)
  with ik show ?case by auto
next
  case (Suc m)
  then have lt: "i < k" and pos: "0 < s" by simp_all
  show ?case
  proof (cases "key i")
    case True
    have stop: "countdown_loop key (Suc i) (s - 1) (g\<lparr>autoboot_enabled := 0\<rparr>)
                  = Some (Suc i, g\<lparr>autoboot_enabled := 0\<rparr>)"
      by (subst countdown_loop.simps) simp
    have "countdown_loop key i s g = Some (Suc i, g\<lparr>autoboot_enabled := 0\<rparr>)"
      using pos Suc.prems(1) True stop
      by (subst countdown_loop.simps) (simp add: INT_MIN_def disable_autoboot_def)
    with lt show ?thesis by auto
  next
    case False
    have "\<exists>n. Suc i < n \<and> n \<le> k + 1
            \<and> countdown_loop key (Suc i) (s - 1) g = Some (n, g\<lparr>autoboot_enabled := 0\<rparr>)"
    proof (rule Suc.hyps(1))
      show "m = k - Suc i" using Suc.hyps(2) by simp
      show "autoboot_enabled g \<noteq> 0" by (rule Suc.prems(1))
      show "Suc i \<le> k" using lt by simp
      show "int k < int (Suc i) + (s - 1)" using Suc.prems(3) by simp
      show "key k" by (rule Suc.prems(4))
    qed
    then obtain n where n: "Suc i < n" "n \<le> k + 1"
      "countdown_loop key (Suc i) (s - 1) g = Some (n, g\<lparr>autoboot_enabled := 0\<rparr>)"
      by blast
    have "countdown_loop key i s g = Some (n, g\<lparr>autoboot_enabled := 0\<rparr>)"
      using pos Suc.prems(1) False n(3)
      by (subst countdown_loop.simps) (simp add: INT_MIN_def)
    with n show ?thesis by auto
  qed
qed

text \<open>
  A negative number of seconds is no duration: with no key event the loop counts away from
  zero until \<^verbatim>\<open>seconds--\<close> overflows.
\<close>

lemma countdown_loop_negative:
  "s < 0 \<Longrightarrow> autoboot_enabled g \<noteq> 0 \<Longrightarrow> (\<forall>j. \<not> key j) \<Longrightarrow> countdown_loop key i s g = None"
proof (induction "nat (s - INT_MIN)" arbitrary: s i)
  case 0
  then have "s \<le> INT_MIN" by simp
  with "0.prems" show ?case by (subst countdown_loop.simps) simp
next
  case (Suc m)
  then have gt: "INT_MIN < s" and m: "m = nat (s - 1 - INT_MIN)" by simp_all
  have "countdown_loop key (Suc i) (s - 1) g = None"
    by (rule Suc.hyps(1) [OF m]) (use Suc.prems in simp_all)
  with gt Suc.prems show ?case by (subst countdown_loop.simps) simp
qed

lemma countdown_negative_duration:
  "D < 0 \<Longrightarrow> (\<forall>j. \<not> key j) \<Longrightarrow> countdown key D g = ([Ui_Show_Progress 1 D], Done Undefined)"
  by (simp add: countdown_def countdown_loop_negative)

text \<open>
  C8. For every duration \<open>D\<close> (a number of seconds, not negative): when no key event arrives
  during the \<open>D\<close> iterations, the countdown sleeps exactly \<open>D\<close> times and returns 1
  (completed); when a key event arrives during iteration \<open>k < D\<close>, it returns 0 (cancelled)
  after at most \<open>k + 1\<close> iterations. In both cases \<^verbatim>\<open>autoboot_enabled\<close> is 0 on return, and
  resetting the progress indicator is the last thing the countdown does to the screen.
\<close>

theorem countdown_completes_or_is_cancelled:
  "(0 \<le> D \<and> (\<forall>i. int i < D \<longrightarrow> \<not> key i) \<longrightarrow>
      countdown key D g =
        ([Ui_Show_Progress 1 D] @ replicate (nat D) (Sleep 1) @ [Ui_Reset_Progress],
         Next (1, g\<lparr>autoboot_enabled := 0\<rparr>)))
   \<and> (int k < D \<and> key' k \<longrightarrow>
      (\<exists>n. n \<le> k + 1 \<and>
         countdown key' D g =
           ([Ui_Show_Progress 1 D] @ replicate n (Sleep 1) @ [Ui_Reset_Progress],
            Next (0, g\<lparr>autoboot_enabled := 0\<rparr>))))"
proof (intro conjI impI)
  assume a: "0 \<le> D \<and> (\<forall>i. int i < D \<longrightarrow> \<not> key i)"
  have "countdown_loop key 0 D (g\<lparr>autoboot_enabled := 1\<rparr>)
          = Some (0 + nat D, g\<lparr>autoboot_enabled := 1\<rparr>)"
    by (rule countdown_loop_no_key) (use a in simp_all)
  then show "countdown key D g =
      ([Ui_Show_Progress 1 D] @ replicate (nat D) (Sleep 1) @ [Ui_Reset_Progress],
       Next (1, g\<lparr>autoboot_enabled := 0\<rparr>))"
    by (simp add: countdown_def)
next
  assume b: "int k < D \<and> key' k"
  have "\<exists>n. 0 < n \<and> n \<le> k + 1
          \<and> countdown_loop key' 0 D (g\<lparr>autoboot_enabled := 1\<rparr>)
              = Some (n, g\<lparr>autoboot_enabled := 1\<rparr>\<lparr>autoboot_enabled := 0\<rparr>)"
    by (rule countdown_loop_key) (use b in simp_all)
  then obtain n where n: "n \<le> k + 1"
    "countdown_loop key' 0 D (g\<lparr>autoboot_enabled := 1\<rparr>) = Some (n, g\<lparr>autoboot_enabled := 0\<rparr>)"
    by auto
  from n(2) have "countdown key' D g =
      ([Ui_Show_Progress 1 D] @ replicate n (Sleep 1) @ [Ui_Reset_Progress],
       Next (0, g\<lparr>autoboot_enabled := 0\<rparr>))"
    by (simp add: countdown_def)
  with n(1) show "\<exists>n. n \<le> k + 1 \<and>
      countdown key' D g =
        ([Ui_Show_Progress 1 D] @ replicate n (Sleep 1) @ [Ui_Reset_Progress],
         Next (0, g\<lparr>autoboot_enabled := 0\<rparr>))"
    by blast
qed

theorem countdown_completes_or_is_cancelled_witness:
  "(0::int) \<le> 3 \<and> \<not> no_key 0 \<and> \<not> no_key 1 \<and> \<not> no_key 2
   \<and> countdown no_key 3 boot_globals =
        ([Ui_Show_Progress 1 3, Sleep 1, Sleep 1, Sleep 1, Ui_Reset_Progress],
         Next (1, boot_globals\<lparr>autoboot_enabled := 0\<rparr>))
   \<and> int 1 < 3 \<and> key_at 1 1
   \<and> (\<exists>n. n \<le> 1 + 1 \<and>
         countdown (key_at 1) 3 boot_globals =
           ([Ui_Show_Progress 1 3] @ replicate n (Sleep 1) @ [Ui_Reset_Progress],
            Next (0, boot_globals\<lparr>autoboot_enabled := 0\<rparr>)))"
proof -
  have h1: "(0::int) \<le> 3 \<and> (\<forall>i. int i < 3 \<longrightarrow> \<not> no_key i)"
    by (simp add: no_key_def)
  have h2: "int 1 < 3 \<and> key_at 1 1"
    by (simp add: key_at_def)
  note t = countdown_completes_or_is_cancelled [of 3 no_key boot_globals 1 "key_at 1"]
  from t h1 have "countdown no_key 3 boot_globals =
        ([Ui_Show_Progress 1 3] @ replicate (nat 3) (Sleep 1) @ [Ui_Reset_Progress],
         Next (1, boot_globals\<lparr>autoboot_enabled := 0\<rparr>))"
    by blast
  then have r1: "countdown no_key 3 boot_globals =
        ([Ui_Show_Progress 1 3, Sleep 1, Sleep 1, Sleep 1, Ui_Reset_Progress],
         Next (1, boot_globals\<lparr>autoboot_enabled := 0\<rparr>))"
    by (simp add: numeral_3_eq_3)
  from t h2 have r2: "\<exists>n. n \<le> 1 + 1 \<and>
         countdown (key_at 1) 3 boot_globals =
           ([Ui_Show_Progress 1 3] @ replicate n (Sleep 1) @ [Ui_Reset_Progress],
            Next (0, boot_globals\<lparr>autoboot_enabled := 0\<rparr>))"
    by blast
  have h3: "\<not> no_key 0 \<and> \<not> no_key 1 \<and> \<not> no_key 2"
    by (simp add: no_key_def)
  from h1 h2 h3 r1 r2 show ?thesis by blast
qed

subsection \<open>The update check\<close>

text \<open>
  C9. In every state in which a deferred update path is stashed in \<^verbatim>\<open>g_update_location\<close>,
  \<^verbatim>\<open>try_update_sw\<close> returns 0 at once: it makes no call at all (no mount, no countdown, no
  provisioning, no write) and leaves the state as it is. So once a call has stashed a
  path, every later call in the same boot is such a no-op, whatever its arguments.
\<close>

theorem try_update_sw_idempotent:
  "(g_update_location g \<noteq> None \<longrightarrow>
      try_update_sw env key vol use_countdown g = ([], Next (0, g)))
   \<and> (try_update_sw env key vol use_countdown g0 = (tr, Next (ret, g1))
        \<and> g_update_location g1 \<noteq> None \<longrightarrow>
      try_update_sw env' key' vol' use_countdown' g1 = ([], Next (0, g1)))"
  by (simp add: try_update_sw_def)


theorem try_update_sw_idempotent_witness:
  "try_update_sw board no_key sdcard 1 boot_globals =
     ([Mount_Device ''/dev/block/mmcblk1p1'' ''/mnt/sdcard'',
       Stat ''/mnt/sdcard/mfld_pr2.auto-ota.zip'', Umount ''/mnt/sdcard'',
       Ui_Show_Text 1, Ui_Show_Progress 1 8] @ replicate 8 (Sleep 1) @
      [Ui_Reset_Progress, Ui_Show_Text 0, Mutex_Lock, Ui_Show_Indeterminate_Progress,
       Erase_Partition ''cache'', Erase_Partition ''data'', Ui_Reset_Progress, Mutex_Unlock],
      Next (0, boot_globals\<lparr>g_update_location := Some ''/sdcard/mfld_pr2.auto-ota.zip''\<rparr>))
   \<and> g_update_location
        (boot_globals\<lparr>g_update_location := Some ''/sdcard/mfld_pr2.auto-ota.zip''\<rparr>) \<noteq> None
   \<and> try_update_sw board no_key sdcard 1
        (boot_globals\<lparr>g_update_location := Some ''/sdcard/mfld_pr2.auto-ota.zip''\<rparr>) =
       ([], Next (0, boot_globals\<lparr>g_update_location := Some ''/sdcard/mfld_pr2.auto-ota.zip''\<rparr>))"
proof -
  have loop: "countdown_loop no_key 0 8 (boot_globals\<lparr>autoboot_enabled := 1\<rparr>)
                = Some (0 + nat 8, boot_globals\<lparr>autoboot_enabled := 1\<rparr>)"
    by (rule countdown_loop_no_key) (simp_all add: no_key_def)
  have first: "try_update_sw board no_key sdcard 1 boot_globals =
     ([Mount_Device ''/dev/block/mmcblk1p1'' ''/mnt/sdcard'',
       Stat ''/mnt/sdcard/mfld_pr2.auto-ota.zip'', Umount ''/mnt/sdcard'',
       Ui_Show_Text 1, Ui_Show_Progress 1 8] @ replicate 8 (Sleep 1) @
      [Ui_Reset_Progress, Ui_Show_Text 0, Mutex_Lock, Ui_Show_Indeterminate_Progress,
       Erase_Partition ''cache'', Erase_Partition ''data'', Ui_Reset_Progress, Mutex_Unlock],
      Next (0, boot_globals\<lparr>g_update_location := Some ''/sdcard/mfld_pr2.auto-ota.zip''\<rparr>))"
    using loop
    by (simp add: try_update_sw_def detect_sw_update_def AUTO_UPDATE_FNAME_def countdown_def
        update_locked_def provisioning_checks_def provision_partition_def run board_def
        sdcard_def boot_globals_def)
  have stashed: "g_update_location
        (boot_globals\<lparr>g_update_location := Some ''/sdcard/mfld_pr2.auto-ota.zip''\<rparr>) \<noteq> None"
    by simp
  from try_update_sw_idempotent
    [where g = "boot_globals\<lparr>g_update_location := Some ''/sdcard/mfld_pr2.auto-ota.zip''\<rparr>"
       and env = board and key = no_key and vol = sdcard and use_countdown = 1]
    stashed
  have second: "try_update_sw board no_key sdcard 1
        (boot_globals\<lparr>g_update_location := Some ''/sdcard/mfld_pr2.auto-ota.zip''\<rparr>) =
       ([], Next (0, boot_globals\<lparr>g_update_location := Some ''/sdcard/mfld_pr2.auto-ota.zip''\<rparr>))"
    by blast
  from first stashed second show ?thesis by blast
qed


end
